theory Spec2Isabelle
  imports Complex_Main "HOL-Library.Word"
begin

section \<open>JavaScript values used by the SMS forwarder service\<close>

text \<open>
  The service (\<^verbatim>\<open>SMSForwarderService\<close>) is TypeScript running on a JavaScript engine.
  A JavaScript string is a sequence of 16-bit code units, so strings are lists of
  \<open>16 word\<close>. \<open>ustr\<close> turns an ASCII literal of the source into such a list.
\<close>

type_synonym codeunit = "16 word"
type_synonym jsstring = "codeunit list"

definition ustr :: "string \<Rightarrow> jsstring" where
  "ustr s = map (\<lambda>c. of_nat (of_char c)) s"

text \<open>
  White space and line terminators of ECMAScript, the characters that
  \<^verbatim>\<open>String.prototype.trim\<close> removes and \<^verbatim>\<open>parseInt\<close> skips.
\<close>

definition isWhiteSpace :: "codeunit \<Rightarrow> bool" where
  "isWhiteSpace c \<longleftrightarrow>
     c \<in> set [0x9, 0xA, 0xB, 0xC, 0xD, 0x20, 0xA0, 0x1680, 0x2028, 0x2029,
                0x202F, 0x205F, 0x3000, 0xFEFF]
     \<or> (0x2000 \<le> c \<and> c \<le> 0x200A)"

definition trimStart :: "jsstring \<Rightarrow> jsstring" where
  "trimStart s = dropWhile isWhiteSpace s"

definition trim :: "jsstring \<Rightarrow> jsstring" where
  "trim s = rev (dropWhile isWhiteSpace (rev (dropWhile isWhiteSpace s)))"

text \<open>
  Numbers. \<open>Num q\<close> is a finite number with the value \<open>q\<close> (both zeros are \<open>Num 0\<close>:
  nothing here tells them apart), \<open>Infinity neg\<close> an infinite one. The counter arithmetic
  below is on integers and is exact while they stay below \<open>2 ^ 53\<close> in absolute value;
  the theorems about the counter assume that range.
\<close>

datatype jsnumber = NaN | Infinity bool | Num rat

datatype jsvalue =
    JUndefined
  | JNull
  | JBool bool
  | JNumber jsnumber
  | JString jsstring
  | JArray "jsvalue list"
  | JObject "(jsstring \<times> jsvalue) list"

text \<open>A thrown value, by the text that
  \<^verbatim>\<open>error instanceof Error ? error.message : String(error)\<close> gives for it.\<close>

datatype error = Error jsstring

fun errorMessage :: "error \<Rightarrow> jsstring" where
  "errorMessage (Error m) = m"

subsection \<open>Decimal numerals: \<^verbatim>\<open>parseInt\<close> and \<^verbatim>\<open>Number.prototype.toString\<close>\<close>

definition digitChar :: "nat \<Rightarrow> codeunit" where
  "digitChar d = of_nat (48 + d)"

fun digits :: "nat \<Rightarrow> jsstring" where
  "digits n = (if n < 10 then [digitChar n] else digits (n div 10) @ [digitChar (n mod 10)])"

declare digits.simps [simp del]

definition intToString :: "int \<Rightarrow> jsstring" where
  "intToString i = (if i < 0 then ustr ''-'' @ digits (nat (- i)) else digits (nat i))"

text \<open>The value of a code unit as a digit of the radix, if it is one.\<close>

definition digitVal :: "nat \<Rightarrow> codeunit \<Rightarrow> nat option" where
  "digitVal radix c =
     (let u = unat c;
          v = (if 48 \<le> u \<and> u \<le> 57 then Some (u - 48)
               else if 97 \<le> u \<and> u \<le> 122 then Some (u - 87)
               else if 65 \<le> u \<and> u \<le> 90 then Some (u - 55)
               else None)
      in case v of None \<Rightarrow> None | Some d \<Rightarrow> if d < radix then Some d else None)"

definition isDigitOf :: "nat \<Rightarrow> codeunit \<Rightarrow> bool" where
  "isDigitOf radix c \<longleftrightarrow> digitVal radix c \<noteq> None"

definition numeralValue :: "nat \<Rightarrow> jsstring \<Rightarrow> nat" where
  "numeralValue radix z = foldl (\<lambda>a c. a * radix + the (digitVal radix c)) 0 z"

text \<open>
  \<^verbatim>\<open>parseInt(s)\<close> with no radix: skip leading white space, read a sign, read the
  prefix \<^verbatim>\<open>0x\<close> or \<^verbatim>\<open>0X\<close> (then the radix is 16), take the longest run of digits;
  \<open>NaN\<close> when there is none.
\<close>

definition parseInt :: "jsstring \<Rightarrow> jsnumber" where
  "parseInt input =
     (let s = trimStart input;
          neg = (s \<noteq> [] \<and> hd s = 0x2D);
          s1 = (if s \<noteq> [] \<and> (hd s = 0x2B \<or> hd s = 0x2D) then tl s else s);
          hex = (case s1 of a # b # _ \<Rightarrow> a = 0x30 \<and> (b = 0x78 \<or> b = 0x58) | _ \<Rightarrow> False);
          radix = (if hex then 16 else 10);
          s2 = (if hex then drop 2 s1 else s1);
          z = takeWhile (isDigitOf radix) s2
      in if z = [] then NaN
         else Num (of_int ((if neg then - 1 else 1) * int (numeralValue radix z))))"


section \<open>The data of the service\<close>

record SMSMessage =
  body :: jsstring
  address :: jsstring
  date :: jsstring
  dateSent :: jsstring

record ConfigData =
  restApiEnabled :: bool
  restApiUrl :: jsstring
  restApiHeaders :: jsstring
  telegramEnabled :: bool
  telegramBotToken :: jsstring
  telegramChatId :: jsstring

text \<open>\<^verbatim>\<open>type\<close> is one of the strings \<^verbatim>\<open>'telegram'\<close>, \<^verbatim>\<open>'restapi'\<close>, \<^verbatim>\<open>'general'\<close>.\<close>

record ErrorEvent =
  type :: jsstring
  message :: jsstring
  timestamp :: jsstring

text \<open>
  A listener is a callback; it is identified by a number, and what it does with an event
  is outside the service (an exception it throws is caught and logged by \<open>emitError\<close>).
\<close>

type_synonym listener = nat

record service =
  isRunning :: bool
  config :: "ConfigData option"
  errorListeners :: "listener list"

record request =
  url :: jsstring
  httpMethod :: jsstring
  headers :: jsvalue
  requestBody :: jsstring

text \<open>A response: its status and what \<^verbatim>\<open>response.json()\<close> resolves to or rejects with.\<close>

record response =
  status :: nat
  json :: "error + jsvalue"

definition ok :: "response \<Rightarrow> bool" where
  "ok r \<longleftrightarrow> 200 \<le> status r \<and> status r \<le> 299"

text \<open>
  What the service can see and change outside itself: the entries of \<^verbatim>\<open>AsyncStorage\<close>,
  the events delivered to listeners (in order), and the calls of \<^verbatim>\<open>fetch\<close> (in order).
  Console output is not modelled.
\<close>

record world =
  items :: "jsstring \<rightharpoonup> jsstring"
  delivered :: "(listener \<times> ErrorEvent) list"
  requests :: "request list"

text \<open>
  How the surroundings behave during one call of the service: which storage operations
  reject, what the built-ins of the engine return (\<^verbatim>\<open>JSON.parse\<close>, \<^verbatim>\<open>JSON.stringify\<close>,
  the text of a number that is not a small integer, \<^verbatim>\<open>String\<close> of an array or object,
  the thrown value for a property read on \<^verbatim>\<open>null\<close>, \<^verbatim>\<open>Date.prototype.toLocaleString\<close>),
  what \<^verbatim>\<open>fetch\<close> answers, the clock at the three places that read it, and which of two
  pending sends settles first.
\<close>

record env =
  getItemError :: "jsstring \<Rightarrow> error option"
  setItemError :: "jsstring \<Rightarrow> error option"
  JSON_parse :: "jsstring \<Rightarrow> error + jsvalue"
  JSON_stringify :: "jsvalue \<Rightarrow> jsstring"
  numberFormat :: "rat \<Rightarrow> jsstring"
  objectToString :: "jsvalue \<Rightarrow> error + jsstring"
  nullAccess :: error
  toLocaleString :: "jsnumber \<Rightarrow> jsstring"
  fetch :: "request \<Rightarrow> error + response"
  nowPayload :: jsstring
  nowRestError :: jsstring
  nowTelegramError :: jsstring
  telegramSettlesFirst :: bool

section \<open>Coercions and operators of the language\<close>

definition bindE :: "error + 'a \<Rightarrow> ('a \<Rightarrow> error + 'b) \<Rightarrow> error + 'b" where
  "bindE r f = (case r of Inl err \<Rightarrow> Inl err | Inr v \<Rightarrow> f v)"

fun ToBoolean :: "jsvalue \<Rightarrow> bool" where
  "ToBoolean JUndefined = False"
| "ToBoolean JNull = False"
| "ToBoolean (JBool b) = b"
| "ToBoolean (JNumber NaN) = False"
| "ToBoolean (JNumber (Infinity neg)) = True"
| "ToBoolean (JNumber (Num q)) = (q \<noteq> 0)"
| "ToBoolean (JString s) = (s \<noteq> [])"
| "ToBoolean (JArray xs) = True"
| "ToBoolean (JObject ps) = True"

text \<open>\<^verbatim>\<open>a || b\<close>\<close>

definition orElse :: "jsvalue \<Rightarrow> jsvalue \<Rightarrow> jsvalue" where
  "orElse a b = (if ToBoolean a then a else b)"

fun numberToString :: "env \<Rightarrow> jsnumber \<Rightarrow> jsstring" where
  "numberToString e NaN = ustr ''NaN''"
| "numberToString e (Infinity neg) = (if neg then ustr ''-Infinity'' else ustr ''Infinity'')"
| "numberToString e (Num q) =
     (if of_int \<lfloor>q\<rfloor> = q \<and> \<bar>q\<bar> < 10 ^ 21 then intToString \<lfloor>q\<rfloor> else numberFormat e q)"

text \<open>\<^verbatim>\<open>String(v)\<close>, also the conversion inside a template literal.\<close>

fun ToString :: "env \<Rightarrow> jsvalue \<Rightarrow> error + jsstring" where
  "ToString e JUndefined = Inr (ustr ''undefined'')"
| "ToString e JNull = Inr (ustr ''null'')"
| "ToString e (JBool b) = Inr (if b then ustr ''true'' else ustr ''false'')"
| "ToString e (JNumber n) = Inr (numberToString e n)"
| "ToString e (JString s) = Inr s"
| "ToString e (JArray xs) = objectToString e (JArray xs)"
| "ToString e (JObject ps) = objectToString e (JObject ps)"

text \<open>
  \<^verbatim>\<open>v.name\<close> for the names the service reads (the six fields of the configuration and
  \<^verbatim>\<open>description\<close>), none of which is inherited from a prototype: the own property of an
  object, \<^verbatim>\<open>undefined\<close> on any other value, a thrown \<^verbatim>\<open>TypeError\<close> on \<^verbatim>\<open>null\<close> and
  \<^verbatim>\<open>undefined\<close>. The list of a \<open>JObject\<close> holds its own properties.
\<close>

fun getProp :: "env \<Rightarrow> jsvalue \<Rightarrow> jsstring \<Rightarrow> error + jsvalue" where
  "getProp e JNull name = Inl (nullAccess e)"
| "getProp e JUndefined name = Inl (nullAccess e)"
| "getProp e (JObject ps) name = Inr (case map_of ps name of None \<Rightarrow> JUndefined | Some v \<Rightarrow> v)"
| "getProp e v name = Inr JUndefined"

text \<open>\<^verbatim>\<open>n + 1\<close> on a number.\<close>

fun addOne :: "jsnumber \<Rightarrow> jsnumber" where
  "addOne NaN = NaN"
| "addOne (Infinity neg) = Infinity neg"
| "addOne (Num q) = Num (q + 1)"

section \<open>\<^verbatim>\<open>AsyncStorage\<close>\<close>

definition getItem :: "env \<Rightarrow> jsstring \<Rightarrow> world \<Rightarrow> error + jsstring option" where
  "getItem e key w = (case getItemError e key of Some err \<Rightarrow> Inl err | None \<Rightarrow> Inr (items w key))"

definition setItem :: "env \<Rightarrow> jsstring \<Rightarrow> jsstring \<Rightarrow> world \<Rightarrow> error + world" where
  "setItem e key v w =
     (case setItemError e key of
        Some err \<Rightarrow> Inl err
      | None \<Rightarrow> Inr (w\<lparr>items := (items w)(key \<mapsto> v)\<rparr>))"

text \<open>\<^verbatim>\<open>item || dflt\<close> for an item read from the store: \<^verbatim>\<open>null\<close> and \<^verbatim>\<open>''\<close> are falsy.\<close>

fun itemOr :: "jsstring option \<Rightarrow> jsstring \<Rightarrow> jsstring" where
  "itemOr None dflt = dflt"
| "itemOr (Some s) dflt = (if s = [] then dflt else s)"

section \<open>The service\<close>

text \<open>
  Every operation takes the service object and the world and returns them changed,
  together with \<open>Inr\<close> of its result or \<open>Inl\<close> of the value it throws (the rejection of
  the promise it returns).
\<close>

definition smsForwarderRunning :: jsstring where
  "smsForwarderRunning = ustr ''smsForwarderRunning''"

definition smsForwarderConfig :: jsstring where
  "smsForwarderConfig = ustr ''smsForwarderConfig''"

definition smsForwardedCount :: jsstring where
  "smsForwardedCount = ustr ''smsForwardedCount''"

definition defaultHeaders :: jsstring where
  "defaultHeaders = ustr ''{\"Content-Type\": \"application/json\"}''"

definition defaultConfig :: ConfigData where
  "defaultConfig = \<lparr>restApiEnabled = False, restApiUrl = [], restApiHeaders = defaultHeaders,
     telegramEnabled = False, telegramBotToken = [], telegramChatId = []\<rparr>"

text \<open>The object literal that \<open>loadConfig\<close> builds from the parsed text, field by field.\<close>

definition configOfParsed :: "env \<Rightarrow> jsvalue \<Rightarrow> error + ConfigData" where
  "configOfParsed e parsedConfig =
     bindE (getProp e parsedConfig (ustr ''restApiEnabled'')) (\<lambda>v1.
     bindE (getProp e parsedConfig (ustr ''restApiUrl'')) (\<lambda>v2.
     bindE (ToString e (orElse v2 (JString []))) (\<lambda>s2.
     bindE (getProp e parsedConfig (ustr ''restApiHeaders'')) (\<lambda>v3.
     bindE (ToString e (orElse v3 (JString defaultHeaders))) (\<lambda>s3.
     bindE (getProp e parsedConfig (ustr ''telegramEnabled'')) (\<lambda>v4.
     bindE (getProp e parsedConfig (ustr ''telegramBotToken'')) (\<lambda>v5.
     bindE (ToString e (orElse v5 (JString []))) (\<lambda>s5.
     bindE (getProp e parsedConfig (ustr ''telegramChatId'')) (\<lambda>v6.
     bindE (ToString e (orElse v6 (JString []))) (\<lambda>s6.
     Inr \<lparr>restApiEnabled = ToBoolean v1, restApiUrl = s2, restApiHeaders = s3,
          telegramEnabled = ToBoolean v4, telegramBotToken = s5, telegramChatId = s6\<rparr>
     ))))))))))"

text \<open>\<open>loadConfig\<close> changes the service object only; what it catches it throws again.\<close>

definition loadConfig :: "env \<Rightarrow> world \<Rightarrow> service \<Rightarrow> error + service" where
  "loadConfig e w s =
     (case getItem e smsForwarderConfig w of
        Inl err \<Rightarrow> Inl err
      | Inr savedConfig \<Rightarrow>
          (case savedConfig of
             Some text \<Rightarrow>
               if text \<noteq> [] then
                 (case JSON_parse e text of
                    Inl err \<Rightarrow> Inl err
                  | Inr parsedConfig \<Rightarrow>
                      (case configOfParsed e parsedConfig of
                         Inl err \<Rightarrow> Inl err
                       | Inr c \<Rightarrow> Inr (s\<lparr>config := Some c\<rparr>)))
               else Inr (s\<lparr>config := Some defaultConfig\<rparr>)
           | None \<Rightarrow> Inr (s\<lparr>config := Some defaultConfig\<rparr>)))"

definition restApiValid :: "ConfigData \<Rightarrow> bool" where
  "restApiValid c \<longleftrightarrow> restApiEnabled c \<and> restApiUrl c \<noteq> [] \<and> trim (restApiUrl c) \<noteq> []"

definition telegramValid :: "ConfigData \<Rightarrow> bool" where
  "telegramValid c \<longleftrightarrow>
     telegramEnabled c \<and> telegramBotToken c \<noteq> [] \<and> trim (telegramBotToken c) \<noteq> [] \<and>
     telegramChatId c \<noteq> [] \<and> trim (telegramChatId c) \<noteq> []"

definition isConfigurationValidSync :: "service \<Rightarrow> bool" where
  "isConfigurationValidSync s =
     (case config s of
        None \<Rightarrow> False
      | Some c \<Rightarrow> restApiValid c \<or> telegramValid c)"

definition isConfigurationValid :: "env \<Rightarrow> service \<times> world \<Rightarrow> bool \<times> service \<times> world" where
  "isConfigurationValid e sw =
     (case sw of (s, w) \<Rightarrow>
        (case loadConfig e w s of
           Inl err \<Rightarrow> (False, s, w)
         | Inr s1 \<Rightarrow> (isConfigurationValidSync s1, s1, w)))"

definition start :: "env \<Rightarrow> service \<times> world \<Rightarrow> (error + unit) \<times> service \<times> world" where
  "start e sw =
     (case sw of (s, w) \<Rightarrow>
        (case loadConfig e w s of
           Inl err \<Rightarrow> (Inl err, s, w)
         | Inr s1 \<Rightarrow>
             if \<not> isConfigurationValidSync s1 then (Inr (), s1, w)
             else
               (let s2 = s1\<lparr>isRunning := True\<rparr> in
                case setItem e smsForwarderRunning (ustr ''true'') w of
                  Inl err \<Rightarrow> (Inl err, s2, w)
                | Inr w1 \<Rightarrow> (Inr (), s2, w1))))"

definition stop :: "env \<Rightarrow> service \<times> world \<Rightarrow> (error + unit) \<times> service \<times> world" where
  "stop e sw =
     (case sw of (s, w) \<Rightarrow>
        (let s1 = s\<lparr>isRunning := False\<rparr> in
         case setItem e smsForwarderRunning (ustr ''false'') w of
           Inl err \<Rightarrow> (Inl err, s1, w)
         | Inr w1 \<Rightarrow> (Inr (), s1, w1)))"

definition isServiceRunning :: "service \<Rightarrow> bool" where
  "isServiceRunning s = isRunning s"

definition addErrorListener :: "listener \<Rightarrow> service \<Rightarrow> service" where
  "addErrorListener l s = s\<lparr>errorListeners := errorListeners s @ [l]\<rparr>"

definition removeErrorListener :: "listener \<Rightarrow> service \<Rightarrow> service" where
  "removeErrorListener l s = s\<lparr>errorListeners := filter (\<lambda>x. x \<noteq> l) (errorListeners s)\<rparr>"

text \<open>
  \<open>emitError\<close> calls every listener, in the order of registration, with one event; the
  clock it reads is the argument \<open>now\<close>.
\<close>

definition emitError :: "jsstring \<Rightarrow> jsstring \<Rightarrow> jsstring \<Rightarrow> service \<Rightarrow> world \<Rightarrow> world" where
  "emitError now ty msg s w =
     w\<lparr>delivered := delivered w @
          map (\<lambda>l. (l, \<lparr>type = ty, message = msg, timestamp = now\<rparr>)) (errorListeners s)\<rparr>"

definition incrementSMSCount :: "env \<Rightarrow> world \<Rightarrow> world" where
  "incrementSMSCount e w =
     (case getItem e smsForwardedCount w of
        Inl err \<Rightarrow> w
      | Inr currentCount \<Rightarrow>
          (let newCount = numberToString e (addOne (parseInt (itemOr currentCount (ustr ''0'')))) in
           case setItem e smsForwardedCount newCount w of
             Inl err \<Rightarrow> w
           | Inr w1 \<Rightarrow> w1))"

definition getSMSCount :: "env \<Rightarrow> world \<Rightarrow> jsnumber" where
  "getSMSCount e w =
     (case getItem e smsForwardedCount w of
        Inl err \<Rightarrow> Num 0
      | Inr count \<Rightarrow> parseInt (itemOr count (ustr ''0'')))"

subsection \<open>The two sends\<close>

text \<open>
  An \<^verbatim>\<open>async\<close> function runs up to its first \<^verbatim>\<open>await\<close> when it is called and
  continues when the awaited promise settles. Each send is therefore two functions: the
  call, which ends with the send settled (\<open>Settled\<close>) or with \<^verbatim>\<open>fetch\<close> called and
  awaited (\<open>Awaiting\<close> the request), and the continuation with the answer of \<^verbatim>\<open>fetch\<close>.
\<close>

datatype pending = Settled | Awaiting request

definition restPayload :: "env \<Rightarrow> SMSMessage \<Rightarrow> jsvalue" where
  "restPayload e sms = JObject
     [(ustr ''message'', JString (body sms)),
      (ustr ''sender'', JString (address sms)),
      (ustr ''timestamp'', JString (date sms)),
      (ustr ''dateSent'', JString (dateSent sms)),
      (ustr ''receivedAt'', JString (nowPayload e))]"

definition restRequest :: "env \<Rightarrow> ConfigData \<Rightarrow> SMSMessage \<Rightarrow> jsvalue \<Rightarrow> request" where
  "restRequest e c sms hdrs =
     \<lparr>url = restApiUrl c, httpMethod = ustr ''POST'', headers = hdrs,
      requestBody = JSON_stringify e (restPayload e sms)\<rparr>"

definition restError :: "env \<Rightarrow> error \<Rightarrow> service \<Rightarrow> world \<Rightarrow> world" where
  "restError e err s w =
     emitError (nowRestError e) (ustr ''restapi'')
       (ustr ''Error forwarding to REST API: '' @ errorMessage err) s w"

definition forwardToRestAPI_call :: "env \<Rightarrow> SMSMessage \<Rightarrow> service \<Rightarrow> world \<Rightarrow> pending \<times> world" where
  "forwardToRestAPI_call e sms s w =
     (case config s of
        None \<Rightarrow> (Settled, w)
      | Some c \<Rightarrow>
          (case JSON_parse e (restApiHeaders c) of
             Inl err \<Rightarrow> (Settled, restError e err s w)
           | Inr hdrs \<Rightarrow>
               (let req = restRequest e c sms hdrs
                in (Awaiting req, w\<lparr>requests := requests w @ [req]\<rparr>))))"

definition forwardToRestAPI_resume :: "env \<Rightarrow> pending \<Rightarrow> service \<Rightarrow> world \<Rightarrow> world" where
  "forwardToRestAPI_resume e p s w =
     (case p of
        Settled \<Rightarrow> w
      | Awaiting req \<Rightarrow>
          (case fetch e req of
             Inl err \<Rightarrow> restError e err s w
           | Inr resp \<Rightarrow>
               if \<not> ok resp then
                 restError e
                   (Error (ustr ''REST API request failed: '' @ intToString (int (status resp)))) s w
               else w))"

definition telegramText :: "env \<Rightarrow> SMSMessage \<Rightarrow> jsstring" where
  "telegramText e sms =
     [0xD83D, 0xDCF1] @ ustr '' *New SMS Received*'' @ [0xA, 0xA] @
     [0xD83D, 0xDCDE] @ ustr '' *From:* '' @ address sms @ [0xA] @
     [0xD83D, 0xDCC5] @ ustr '' *Date:* '' @ toLocaleString e (parseInt (date sms)) @ [0xA] @
     [0xD83D, 0xDCAC] @ ustr '' *Message:*'' @ [0xA] @ body sms"

definition telegramRequest :: "env \<Rightarrow> ConfigData \<Rightarrow> SMSMessage \<Rightarrow> request" where
  "telegramRequest e c sms =
     \<lparr>url = ustr ''https://api.telegram.org/bot'' @ telegramBotToken c @ ustr ''/sendMessage'',
      httpMethod = ustr ''POST'',
      headers = JObject [(ustr ''Content-Type'', JString (ustr ''application/json''))],
      requestBody = JSON_stringify e (JObject
        [(ustr ''chat_id'', JString (telegramChatId c)),
         (ustr ''text'', JString (telegramText e sms)),
         (ustr ''parse_mode'', JString (ustr ''Markdown''))])\<rparr>"

definition telegramError :: "env \<Rightarrow> error \<Rightarrow> service \<Rightarrow> world \<Rightarrow> world" where
  "telegramError e err s w =
     emitError (nowTelegramError e) (ustr ''telegram'')
       (ustr ''Error forwarding to Telegram: '' @ errorMessage err) s w"

definition forwardToTelegram_call :: "env \<Rightarrow> SMSMessage \<Rightarrow> service \<Rightarrow> world \<Rightarrow> pending \<times> world" where
  "forwardToTelegram_call e sms s w =
     (case config s of
        None \<Rightarrow> (Settled, w)
      | Some c \<Rightarrow>
          (let req = telegramRequest e c sms
           in (Awaiting req, w\<lparr>requests := requests w @ [req]\<rparr>)))"

text \<open>The value thrown when the response is not ok, or what fails on the way to it.\<close>

definition telegramFailure :: "env \<Rightarrow> response \<Rightarrow> error" where
  "telegramFailure e resp =
     (case json resp of
        Inl err \<Rightarrow> err
      | Inr errorData \<Rightarrow>
          (case getProp e errorData (ustr ''description'') of
             Inl err \<Rightarrow> err
           | Inr d \<Rightarrow>
               (case ToString e (orElse d (JNumber (Num (of_nat (status resp))))) of
                  Inl err \<Rightarrow> err
                | Inr t \<Rightarrow> Error (ustr ''Telegram API request failed: '' @ t))))"

definition forwardToTelegram_resume :: "env \<Rightarrow> pending \<Rightarrow> service \<Rightarrow> world \<Rightarrow> world" where
  "forwardToTelegram_resume e p s w =
     (case p of
        Settled \<Rightarrow> w
      | Awaiting req \<Rightarrow>
          (case fetch e req of
             Inl err \<Rightarrow> telegramError e err s w
           | Inr resp \<Rightarrow>
               if \<not> ok resp then telegramError e (telegramFailure e resp) s w
               else w))"

subsection \<open>\<open>forwardSMS\<close>\<close>

datatype destination = REST | TELEGRAM

text \<open>The sends whose promises \<open>forwardSMS\<close> pushes on \<^verbatim>\<open>promises\<close>, in that order.\<close>

definition scheduledSends :: "ConfigData \<Rightarrow> destination list" where
  "scheduledSends c =
     (if restApiEnabled c \<and> restApiUrl c \<noteq> [] then [REST] else []) @
     (if telegramEnabled c \<and> telegramBotToken c \<noteq> [] then [TELEGRAM] else [])"

text \<open>
  Both sends are called, one after the other, before either continues;
  \<^verbatim>\<open>Promise.allSettled\<close> then waits for both, and they continue in the order in which
  their requests are answered. Nothing is thrown to the caller: the sends and
  \<open>incrementSMSCount\<close> catch what they throw.
\<close>

definition forwardSMS :: "env \<Rightarrow> SMSMessage \<Rightarrow> service \<times> world \<Rightarrow> (error + unit) \<times> service \<times> world" where
  "forwardSMS e sms sw =
     (case sw of (s, w) \<Rightarrow>
        if \<not> isRunning s \<or> config s = None then (Inr (), s, w)
        else
          (let c = the (config s);
               (p1, w1) = (if REST \<in> set (scheduledSends c)
                           then forwardToRestAPI_call e sms s w else (Settled, w));
               (p2, w2) = (if TELEGRAM \<in> set (scheduledSends c)
                           then forwardToTelegram_call e sms s w1 else (Settled, w1));
               w3 = (if telegramSettlesFirst e
                     then forwardToRestAPI_resume e p1 s (forwardToTelegram_resume e p2 s w2)
                     else forwardToTelegram_resume e p2 s (forwardToRestAPI_resume e p1 s w2));
               w4 = incrementSMSCount e w3
           in (Inr (), s, w4)))"

section \<open>The validity predicate as the specification words it\<close>

text \<open>
  A destination is active when its enabled flag is true and all of its required fields
  are non-empty after trimming white space: the URL for REST, the bot token and the chat
  id for Telegram.
\<close>

definition restActive :: "ConfigData \<Rightarrow> bool" where
  "restActive c \<longleftrightarrow> restApiEnabled c \<and> trim (restApiUrl c) \<noteq> []"

definition telegramActive :: "ConfigData \<Rightarrow> bool" where
  "telegramActive c \<longleftrightarrow>
     telegramEnabled c \<and> trim (telegramBotToken c) \<noteq> [] \<and> trim (telegramChatId c) \<noteq> []"

section \<open>Notions for stating the claims about the sends\<close>

text \<open>
  The REST send fails when the headers text does not parse, when \<^verbatim>\<open>fetch\<close> rejects, or
  when the status of the response is not 2xx; the Telegram send fails when \<^verbatim>\<open>fetch\<close>
  rejects or the status is not 2xx.
\<close>

definition restSendFails :: "env \<Rightarrow> ConfigData \<Rightarrow> SMSMessage \<Rightarrow> bool" where
  "restSendFails e c sms =
     (case JSON_parse e (restApiHeaders c) of
        Inl err \<Rightarrow> True
      | Inr hdrs \<Rightarrow>
          (case fetch e (restRequest e c sms hdrs) of
             Inl err \<Rightarrow> True
           | Inr resp \<Rightarrow> status resp < 200 \<or> 299 < status resp))"

definition telegramSendFails :: "env \<Rightarrow> ConfigData \<Rightarrow> SMSMessage \<Rightarrow> bool" where
  "telegramSendFails e c sms =
     (case fetch e (telegramRequest e c sms) of
        Inl err \<Rightarrow> True
      | Inr resp \<Rightarrow> status resp < 200 \<or> 299 < status resp)"

text \<open>One event delivered to every registered listener, in the order of registration.\<close>

definition deliveries :: "ErrorEvent \<Rightarrow> service \<Rightarrow> (listener \<times> ErrorEvent) list" where
  "deliveries ev s = map (\<lambda>l. (l, ev)) (errorListeners s)"

text \<open>The error events of the two sends, for the value that was thrown.\<close>

definition restEvent :: "env \<Rightarrow> error \<Rightarrow> ErrorEvent" where
  "restEvent e err = \<lparr>type = ustr ''restapi'',
     message = ustr ''Error forwarding to REST API: '' @ errorMessage err,
     timestamp = nowRestError e\<rparr>"

definition telegramEvent :: "env \<Rightarrow> error \<Rightarrow> ErrorEvent" where
  "telegramEvent e err = \<lparr>type = ustr ''telegram'',
     message = ustr ''Error forwarding to Telegram: '' @ errorMessage err,
     timestamp = nowTelegramError e\<rparr>"

text \<open>What the Telegram send throws when it fails.\<close>

definition telegramThrown :: "env \<Rightarrow> ConfigData \<Rightarrow> SMSMessage \<Rightarrow> error" where
  "telegramThrown e c sms =
     (case fetch e (telegramRequest e c sms) of
        Inl err \<Rightarrow> err
      | Inr resp \<Rightarrow> telegramFailure e resp)"

section \<open>Example inputs\<close>

definition exampleMessage :: SMSMessage where
  "exampleMessage = \<lparr>body = ustr ''hi'', address = ustr ''+15551234567'',
     date = ustr ''1700000000000'', dateSent = ustr ''1700000000000''\<rparr>"

definition exampleHeaders :: jsvalue where
  "exampleHeaders = JObject [(ustr ''Content-Type'', JString (ustr ''application/json''))]"

text \<open>
  \<open>exampleStringify\<close> is \<^verbatim>\<open>JSON.stringify\<close> on an object whose values are strings with no
  control character other than the line feed and no lone surrogate; \<open>exampleParse\<close> is
  \<^verbatim>\<open>JSON.parse\<close> on the texts that the examples give it: the default headers, the
  stored configuration \<open>exampleConfigText\<close>, \<^verbatim>\<open>null\<close>, and \<^verbatim>\<open>{invalid json\<close>.
\<close>

definition quoteString :: "jsstring \<Rightarrow> jsstring" where
  "quoteString s = [0x22] @ concat (map (\<lambda>c.
       if c = 0x22 then [0x5C, 0x22] else if c = 0x5C then [0x5C, 0x5C]
       else if c = 0xA then [0x5C, 0x6E] else [c]) s) @ [0x22]"

fun joinComma :: "jsstring list \<Rightarrow> jsstring" where
  "joinComma [] = []"
| "joinComma [x] = x"
| "joinComma (x # y # ys) = x @ [0x2C] @ joinComma (y # ys)"

fun exampleStringify :: "jsvalue \<Rightarrow> jsstring" where
  "exampleStringify (JObject ps) =
     [0x7B] @ joinComma (map (\<lambda>(k, v). quoteString k @ [0x3A] @
        (case v of JString t \<Rightarrow> quoteString t | _ \<Rightarrow> ustr ''null'')) ps) @ [0x7D]"
| "exampleStringify v = ustr ''null''"

definition exampleConfigText :: jsstring where
  "exampleConfigText = ustr
     ''{\"restApiEnabled\":true,\"restApiUrl\":\"https://example.test/sms\",\"telegramEnabled\":false}''"

definition exampleConfigValue :: jsvalue where
  "exampleConfigValue = JObject
     [(ustr ''restApiEnabled'', JBool True),
      (ustr ''restApiUrl'', JString (ustr ''https://example.test/sms'')),
      (ustr ''telegramEnabled'', JBool False)]"

definition exampleParse :: "jsstring \<Rightarrow> error + jsvalue" where
  "exampleParse t =
     (if t = defaultHeaders then Inr exampleHeaders
      else if t = exampleConfigText then Inr exampleConfigValue
      else if t = ustr ''null'' then Inr JNull
      else Inl (Error (ustr ''JSON Parse error: Unexpected token'')))"

text \<open>\<^verbatim>\<open>new Date(n).toLocaleString()\<close> in the locale \<^verbatim>\<open>en-US\<close> and the time zone UTC, at two
  instants.\<close>

definition exampleLocaleString :: "jsnumber \<Rightarrow> jsstring" where
  "exampleLocaleString n =
     (if n = Num 1700000000000 then ustr ''11/14/2023, 10:13:20 PM''
      else if n = Num 1600000000000 then ustr ''9/13/2020, 12:26:40 PM''
      else ustr ''Invalid Date'')"

definition okResponse :: response where
  "okResponse = \<lparr>status = 200, json = Inr (JObject [(ustr ''ok'', JBool True)])\<rparr>"

text \<open>The store works and every request is answered with status 200.\<close>

definition exampleEnv :: env where
  "exampleEnv = \<lparr>getItemError = (\<lambda>k. None), setItemError = (\<lambda>k. None),
     JSON_parse = exampleParse, JSON_stringify = exampleStringify,
     numberFormat = (\<lambda>q. ustr ''0.5''),
     objectToString = (\<lambda>v. Inr (ustr ''[object Object]'')),
     nullAccess = Error (ustr ''Cannot read property of null''),
     toLocaleString = exampleLocaleString,
     fetch = (\<lambda>r. Inr okResponse),
     nowPayload = ustr ''2023-11-14T22:13:20.000Z'',
     nowRestError = ustr ''2023-11-14T22:13:21.000Z'',
     nowTelegramError = ustr ''2023-11-14T22:13:22.000Z'',
     telegramSettlesFirst = False\<rparr>"

definition storeError :: error where
  "storeError = Error (ustr ''Failed to write to storage'')"

text \<open>The same, with every write to the store rejected.\<close>

definition brokenStoreEnv :: env where
  "brokenStoreEnv = exampleEnv\<lparr>setItemError := (\<lambda>k. Some storeError)\<rparr>"

definition emptyWorld :: world where
  "emptyWorld = \<lparr>items = Map.empty, delivered = [], requests = []\<rparr>"

text \<open>A store that holds \<open>exampleConfigText\<close>, which loads as \<open>restOnlyConfig\<close>.\<close>

definition configuredWorld :: world where
  "configuredWorld = \<lparr>items = [smsForwarderConfig \<mapsto> exampleConfigText], delivered = [],
     requests = []\<rparr>"

definition restOnlyConfig :: ConfigData where
  "restOnlyConfig = \<lparr>restApiEnabled = True, restApiUrl = ustr ''https://example.test/sms'',
     restApiHeaders = defaultHeaders, telegramEnabled = False, telegramBotToken = [],
     telegramChatId = []\<rparr>"

definition stoppedService :: service where
  "stoppedService = \<lparr>isRunning = False, config = Some restOnlyConfig, errorListeners = [1, 2]\<rparr>"

definition runningService :: service where
  "runningService = \<lparr>isRunning = True, config = Some restOnlyConfig, errorListeners = [1, 2]\<rparr>"

text \<open>
  Both destinations configured, and an environment in which every request is answered
  with status 400 and the body of a Telegram error.
\<close>

definition bothConfig :: ConfigData where
  "bothConfig = \<lparr>restApiEnabled = True, restApiUrl = ustr ''https://example.test/sms'',
     restApiHeaders = defaultHeaders, telegramEnabled = True,
     telegramBotToken = ustr ''123456:ABC'', telegramChatId = ustr ''987654321''\<rparr>"

definition bothService :: service where
  "bothService = \<lparr>isRunning = True, config = Some bothConfig, errorListeners = [1, 2]\<rparr>"

definition errorResponse :: response where
  "errorResponse = \<lparr>status = 400, json = Inr (JObject
     [(ustr ''ok'', JBool False), (ustr ''error_code'', JNumber (Num 400)),
      (ustr ''description'', JString (ustr ''Bad Request: chat not found''))])\<rparr>"

definition failingEnv :: env where
  "failingEnv = exampleEnv\<lparr>fetch := (\<lambda>r. Inr errorResponse)\<rparr>"

text \<open>A running service with no destination enabled, and a store whose counter is 41.\<close>

definition disabledConfig :: ConfigData where
  "disabledConfig = restOnlyConfig\<lparr>restApiEnabled := False\<rparr>"

definition disabledService :: service where
  "disabledService = \<lparr>isRunning = True, config = Some disabledConfig, errorListeners = [1, 2]\<rparr>"

definition countedWorld :: world where
  "countedWorld = \<lparr>items = [smsForwardedCount \<mapsto> ustr ''41''], delivered = [], requests = []\<rparr>"

text \<open>
  Telegram enabled with a bot token and no chat id, beside a valid REST destination; a
  REST URL of three spaces; headers that are not JSON; headers that are JSON and not
  an object.
\<close>

definition noChatIdConfig :: ConfigData where
  "noChatIdConfig = bothConfig\<lparr>telegramChatId := []\<rparr>"

definition noChatIdService :: service where
  "noChatIdService = \<lparr>isRunning = True, config = Some noChatIdConfig, errorListeners = [1, 2]\<rparr>"

definition blankUrlConfig :: ConfigData where
  "blankUrlConfig = restOnlyConfig\<lparr>restApiUrl := ustr ''   ''\<rparr>"

definition invalidHeadersConfig :: ConfigData where
  "invalidHeadersConfig = bothConfig\<lparr>restApiHeaders := ustr ''{invalid json''\<rparr>"

definition invalidHeadersService :: service where
  "invalidHeadersService =
     \<lparr>isRunning = True, config = Some invalidHeadersConfig, errorListeners = [1, 2]\<rparr>"

definition nullHeadersConfig :: ConfigData where
  "nullHeadersConfig = restOnlyConfig\<lparr>restApiHeaders := ustr ''null''\<rparr>"

definition nullHeadersService :: service where
  "nullHeadersService =
     \<lparr>isRunning = True, config = Some nullHeadersConfig, errorListeners = [1, 2]\<rparr>"

text \<open>
  A response with status 200 whose body says that the call did not succeed, and a
  message sent long before it was received.
\<close>

definition okFalseResponse :: response where
  "okFalseResponse = \<lparr>status = 200, json = Inr (JObject
     [(ustr ''ok'', JBool False), (ustr ''description'', JString (ustr ''Bad Request''))])\<rparr>"

definition okFalseEnv :: env where
  "okFalseEnv = exampleEnv\<lparr>fetch := (\<lambda>r. Inr okFalseResponse)\<rparr>"

definition laterSentMessage :: SMSMessage where
  "laterSentMessage = exampleMessage\<lparr>dateSent := ustr ''1600000000000''\<rparr>"

section \<open>Facts about the built-ins\<close>

subsection \<open>A decimal numeral is read back as the integer it was written from\<close>

lemma unat_digitChar: "d < 10 \<Longrightarrow> unat (digitChar d) = 48 + d"
  by (simp only: digitChar_def unat_of_nat) simp

lemma digitVal_digitChar: "d < 10 \<Longrightarrow> digitVal 10 (digitChar d) = Some d"
  by (simp add: digitVal_def unat_digitChar Let_def)

lemma isDigitOf_digitChar: "d < 10 \<Longrightarrow> isDigitOf 10 (digitChar d)"
  by (simp add: isDigitOf_def digitVal_digitChar)

lemma isDigitOf_10_range: "isDigitOf 10 c \<Longrightarrow> 48 \<le> unat c \<and> unat c \<le> 57"
  by (auto simp: isDigitOf_def digitVal_def Let_def split: if_splits)

lemma digit_not_space: "isDigitOf 10 c \<Longrightarrow> \<not> isWhiteSpace c"
  by (drule isDigitOf_10_range) (auto simp: isWhiteSpace_def word_le_nat_alt)

lemma digit_not_sign: "isDigitOf 10 c \<Longrightarrow> c \<noteq> 0x2B \<and> c \<noteq> 0x2D \<and> c \<noteq> 0x78 \<and> c \<noteq> 0x58"
  by (drule isDigitOf_10_range) auto

lemma digits_all: "\<forall>c \<in> set (digits n). isDigitOf 10 c"
  by (induction n rule: digits.induct) (subst digits.simps, auto simp: isDigitOf_digitChar)

lemma digits_nonempty: "digits n \<noteq> []"
  by (subst digits.simps) simp

lemma numeralValue_snoc: "numeralValue r (z @ [c]) = numeralValue r z * r + the (digitVal r c)"
  by (simp add: numeralValue_def)

lemma numeralValue_digits: "numeralValue 10 (digits n) = n"
proof (induction n rule: digits.induct)
  case (1 n)
  show ?case
  proof (cases "n < 10")
    case True
    then show ?thesis by (subst digits.simps) (simp add: numeralValue_def digitVal_digitChar)
  next
    case False
    with 1 show ?thesis
      by (subst digits.simps) (simp add: numeralValue_snoc digitVal_digitChar)
  qed
qed


lemma trimStart_digit: "s \<noteq> [] \<Longrightarrow> isDigitOf 10 (hd s) \<Longrightarrow> trimStart s = s"
  by (cases s) (auto simp: trimStart_def digit_not_space)

lemma takeWhile_digits: "takeWhile (isDigitOf 10) (digits n) = digits n"
  using digits_all by (simp add: takeWhile_eq_all_conv)

lemma hd_digits: "isDigitOf 10 (hd (digits n))"
  using digits_all [of n] digits_nonempty [of n] by (cases "digits n") auto

lemma not_hex_digits: "\<not> (case digits n of a # b # _ \<Rightarrow> a = 0x30 \<and> (b = 0x78 \<or> b = 0x58) | _ \<Rightarrow> False)"
  using digits_all [of n] by (auto split: list.splits dest: digit_not_sign)

lemma parseInt_digits: "parseInt (digits n) = Num (of_nat n)"
  using digits_nonempty [of n] hd_digits [of n] not_hex_digits [of n]
  by (simp add: parseInt_def Let_def trimStart_digit takeWhile_digits numeralValue_digits digit_not_sign)

lemma parseInt_minus_digits: "parseInt (ustr ''-'' @ digits n) = Num (- of_nat n)"
  using digits_nonempty [of n] hd_digits [of n] not_hex_digits [of n]
  by (simp add: parseInt_def Let_def ustr_def trimStart_def isWhiteSpace_def takeWhile_digits numeralValue_digits)

lemma parseInt_intToString: "parseInt (intToString i) = Num (of_int i)"
  by (cases "i < 0") (simp_all add: intToString_def parseInt_digits parseInt_minus_digits)

lemma intToString_nonempty: "intToString i \<noteq> []"
  by (simp add: intToString_def digits_nonempty)

lemma trim_Nil: "trim [] = []"
  by (simp add: trim_def)

lemma trim_nonempty: "trim s \<noteq> [] \<Longrightarrow> s \<noteq> []"
  by (auto simp: trim_Nil)

subsection \<open>The counter\<close>

lemma incrementSMSCount_frame:
  "delivered (incrementSMSCount e w) = delivered w \<and> requests (incrementSMSCount e w) = requests w"
  by (auto simp: incrementSMSCount_def getItem_def setItem_def Let_def split: sum.splits option.splits)

lemma incrementSMSCount_counts:
  assumes rd: "getItemError e smsForwardedCount = None"
    and wr: "setItemError e smsForwardedCount = None"
    and rd': "getItemError e' smsForwardedCount = None"
    and cnt: "getSMSCount e w = Num (of_int n)"
    and rng: "- (2 ^ 53) \<le> n" "n < 2 ^ 53"
  shows "getSMSCount e' (incrementSMSCount e w) = Num (of_int (n + 1))"
proof -
  have p: "parseInt (itemOr (items w smsForwardedCount) (ustr ''0'')) = Num (of_int n)"
    using cnt rd by (simp add: getSMSCount_def getItem_def)
  have "\<bar>of_int (n + 1) :: rat\<bar> < 10 ^ 21"
  proof -
    have "\<bar>n + 1\<bar> < 10 ^ 21" using rng by simp
    then have "of_int \<bar>n + 1\<bar> < (of_int (10 ^ 21) :: rat)" by (simp only: of_int_less_iff)
    then show ?thesis by simp
  qed
  then have t: "numberToString e (Num (of_int n + 1)) = intToString (n + 1)"
    by simp
  have w': "items (incrementSMSCount e w) smsForwardedCount = Some (intToString (n + 1))"
    using rd wr p t by (simp add: incrementSMSCount_def getItem_def setItem_def Let_def)
  show ?thesis
    using rd' w' by (simp add: getSMSCount_def getItem_def intToString_nonempty parseInt_intToString)
qed

lemma incrementSMSCount_write_fails:
  "setItemError e smsForwardedCount = Some err \<Longrightarrow> incrementSMSCount e w = w"
  by (auto simp: incrementSMSCount_def getItem_def setItem_def Let_def split: sum.splits option.splits)

subsection \<open>Loading and validity\<close>

lemma loadConfig_sets_config:
  "loadConfig e w s = Inr s1 \<Longrightarrow> \<exists>c. s1 = s\<lparr>config := Some c\<rparr>"
  by (auto simp: loadConfig_def split: sum.splits option.splits if_splits)

lemma restApiValid_iff: "restApiValid c \<longleftrightarrow> restActive c"
  by (auto simp: restApiValid_def restActive_def trim_Nil)

lemma telegramValid_iff: "telegramValid c \<longleftrightarrow> telegramActive c"
  by (auto simp: telegramValid_def telegramActive_def trim_Nil)

lemma isConfigurationValidSync_iff:
  "isConfigurationValidSync s \<longleftrightarrow> (\<exists>c. config s = Some c \<and> (restActive c \<or> telegramActive c))"
  by (simp add: isConfigurationValidSync_def restApiValid_iff telegramValid_iff split: option.splits)

lemma loadConfig_nothing_stored:
  "getItemError e smsForwarderConfig = None \<Longrightarrow> items w smsForwarderConfig = None \<Longrightarrow>
   loadConfig e w s = Inr (s\<lparr>config := Some defaultConfig\<rparr>)"
  by (simp add: loadConfig_def getItem_def)

lemma loadConfig_unreadable:
  "getItemError e smsForwarderConfig = Some err \<Longrightarrow> loadConfig e w s = Inl err"
  by (simp add: loadConfig_def getItem_def)

lemma defaultConfig_inactive: "\<not> restActive defaultConfig \<and> \<not> telegramActive defaultConfig"
  by (simp add: restActive_def telegramActive_def defaultConfig_def)

lemma loadConfig_example: "loadConfig exampleEnv configuredWorld s = Inr (s\<lparr>config := Some restOnlyConfig\<rparr>)"
  by (simp add: loadConfig_def getItem_def exampleEnv_def configuredWorld_def exampleParse_def
      exampleConfigText_def defaultHeaders_def ustr_def exampleConfigValue_def configOfParsed_def
      bindE_def orElse_def restOnlyConfig_def smsForwarderConfig_def)

lemma loadConfig_example_brokenStore:
  "loadConfig brokenStoreEnv configuredWorld s = Inr (s\<lparr>config := Some restOnlyConfig\<rparr>)"
  by (simp add: loadConfig_def getItem_def brokenStoreEnv_def exampleEnv_def configuredWorld_def
      exampleParse_def exampleConfigText_def defaultHeaders_def ustr_def exampleConfigValue_def
      configOfParsed_def bindE_def orElse_def restOnlyConfig_def smsForwarderConfig_def)

lemma restOnlyConfig_active: "restActive restOnlyConfig"
  by (simp add: restActive_def restOnlyConfig_def trim_def ustr_def isWhiteSpace_def)

subsection \<open>\<open>stop\<close>\<close>

lemma stop_service: "fst (snd (stop e (s, w))) = s\<lparr>isRunning := False\<rparr>"
  by (simp add: stop_def setItem_def Let_def split: option.splits)

lemma stop_accepted:
  "setItemError e smsForwarderRunning = None \<Longrightarrow>
   stop e (s, w) = (Inr (), s\<lparr>isRunning := False\<rparr>,
                    w\<lparr>items := (items w)(smsForwarderRunning \<mapsto> ustr ''false'')\<rparr>)"
  by (simp add: stop_def setItem_def Let_def)

lemma stop_rejected:
  "setItemError e smsForwarderRunning = Some err \<Longrightarrow>
   stop e (s, w) = (Inl err, s\<lparr>isRunning := False\<rparr>, w)"
  by (simp add: stop_def setItem_def Let_def)

subsection \<open>\<open>start\<close>\<close>

lemma loadConfig_isRunning: "loadConfig e w s = Inr s1 \<Longrightarrow> isRunning s1 = isRunning s"
  by (drule loadConfig_sets_config) auto

lemma start_load_fails: "loadConfig e w s = Inl err \<Longrightarrow> start e (s, w) = (Inl err, s, w)"
  by (simp add: start_def)

lemma start_invalid:
  "loadConfig e w s = Inr s1 \<Longrightarrow> \<not> isConfigurationValidSync s1 \<Longrightarrow>
   start e (s, w) = (Inr (), s1, w)"
  by (simp add: start_def)

lemma start_valid_accepted:
  "loadConfig e w s = Inr s1 \<Longrightarrow> isConfigurationValidSync s1 \<Longrightarrow>
   setItemError e smsForwarderRunning = None \<Longrightarrow>
   start e (s, w) = (Inr (), s1\<lparr>isRunning := True\<rparr>,
                     w\<lparr>items := (items w)(smsForwarderRunning \<mapsto> ustr ''true'')\<rparr>)"
  by (simp add: start_def setItem_def Let_def)

lemma start_valid_rejected:
  "loadConfig e w s = Inr s1 \<Longrightarrow> isConfigurationValidSync s1 \<Longrightarrow>
   setItemError e smsForwarderRunning = Some err \<Longrightarrow>
   start e (s, w) = (Inl err, s1\<lparr>isRunning := True\<rparr>, w)"
  by (simp add: start_def setItem_def Let_def)

lemma start_valid_service:
  "loadConfig e w s = Inr s1 \<Longrightarrow> isConfigurationValidSync s1 \<Longrightarrow>
   fst (snd (start e (s, w))) = s1\<lparr>isRunning := True\<rparr>"
  by (cases "setItemError e smsForwarderRunning")
     (simp_all add: start_valid_accepted start_valid_rejected)

lemma isConfigurationValid_result:
  "fst (isConfigurationValid e (s, w)) =
     (case loadConfig e w s of Inl err \<Rightarrow> False | Inr s1 \<Rightarrow> isConfigurationValidSync s1)"
  by (simp add: isConfigurationValid_def split: sum.splits)

lemma start_running_iff:
  "isServiceRunning (fst (snd (start e (s, w)))) \<longleftrightarrow>
     isRunning s \<or> fst (isConfigurationValid e (s, w))"
proof (cases "loadConfig e w s")
  case (Inl err)
  then show ?thesis
    by (simp add: start_load_fails isConfigurationValid_result isServiceRunning_def)
next
  case (Inr s1)
  then show ?thesis
    by (cases "isConfigurationValidSync s1")
       (simp_all add: start_invalid start_valid_service isConfigurationValid_result
          isServiceRunning_def loadConfig_isRunning)
qed

subsection \<open>\<open>forwardSMS\<close>\<close>

lemma forwardSMS_returns: "fst (forwardSMS e sms sw) = Inr ()"
  by (cases sw) (simp add: forwardSMS_def Let_def split: prod.splits)

lemma forwardSMS_service: "fst (snd (forwardSMS e sms (s, w))) = s"
  by (simp add: forwardSMS_def Let_def split: prod.splits)

lemma forwardSMS_nothing_scheduled:
  "isRunning s \<Longrightarrow> config s = Some c \<Longrightarrow> scheduledSends c = [] \<Longrightarrow>
   forwardSMS e sms (s, w) = (Inr (), s, incrementSMSCount e w)"
  by (simp add: forwardSMS_def forwardToRestAPI_resume_def forwardToTelegram_resume_def)

lemma getSMSCount_countedWorld: "getSMSCount exampleEnv countedWorld = Num (of_int 41)"
  by (simp add: getSMSCount_def getItem_def exampleEnv_def countedWorld_def  parseInt_def ustr_def
     trimStart_def isWhiteSpace_def Let_def isDigitOf_def digitVal_def numeralValue_def)

subsection \<open>The sends\<close>

lemma getSMSCount_items: "items w1 = items w2 \<Longrightarrow> getSMSCount e w1 = getSMSCount e w2"
  by (simp add: getSMSCount_def getItem_def split: option.splits)

lemma restError_eq:
  "restError e err s w = w\<lparr>delivered := delivered w @ deliveries (restEvent e err) s\<rparr>"
  by (simp add: restError_def emitError_def deliveries_def restEvent_def)

lemma telegramError_eq:
  "telegramError e err s w = w\<lparr>delivered := delivered w @ deliveries (telegramEvent e err) s\<rparr>"
  by (simp add: telegramError_def emitError_def deliveries_def telegramEvent_def)

lemma rest_call_unparsed:
  "config s = Some c \<Longrightarrow> JSON_parse e (restApiHeaders c) = Inl err \<Longrightarrow>
   forwardToRestAPI_call e sms s w = (Settled, restError e err s w)"
  by (simp add: forwardToRestAPI_call_def)

lemma rest_call_parsed:
  "config s = Some c \<Longrightarrow> JSON_parse e (restApiHeaders c) = Inr hdrs \<Longrightarrow>
   forwardToRestAPI_call e sms s w =
     (Awaiting (restRequest e c sms hdrs), w\<lparr>requests := requests w @ [restRequest e c sms hdrs]\<rparr>)"
  by (simp add: forwardToRestAPI_call_def Let_def)

lemma rest_resume_fails:
  "JSON_parse e (restApiHeaders c) = Inr hdrs \<Longrightarrow> restSendFails e c sms \<Longrightarrow>
   \<exists>err. \<forall>w. forwardToRestAPI_resume e (Awaiting (restRequest e c sms hdrs)) s w = restError e err s w"
  by (cases "fetch e (restRequest e c sms hdrs)")
     (auto simp: forwardToRestAPI_resume_def restSendFails_def ok_def)

lemma telegram_call_eq:
  "config s = Some c \<Longrightarrow>
   forwardToTelegram_call e sms s w =
     (Awaiting (telegramRequest e c sms), w\<lparr>requests := requests w @ [telegramRequest e c sms]\<rparr>)"
  by (simp add: forwardToTelegram_call_def Let_def)

lemma telegram_resume_fails:
  "telegramSendFails e c sms \<Longrightarrow>
   \<exists>err. \<forall>w. forwardToTelegram_resume e (Awaiting (telegramRequest e c sms)) s w = telegramError e err s w"
  by (cases "fetch e (telegramRequest e c sms)")
     (auto simp: forwardToTelegram_resume_def telegramSendFails_def ok_def)

lemma telegram_resume_succeeds:
  "\<not> telegramSendFails e c sms \<Longrightarrow>
   forwardToTelegram_resume e (Awaiting (telegramRequest e c sms)) s w = w"
  by (cases "fetch e (telegramRequest e c sms)")
     (auto simp: forwardToTelegram_resume_def telegramSendFails_def ok_def)

lemma active_scheduled:
  "restActive c \<Longrightarrow> REST \<in> set (scheduledSends c)"
  "telegramActive c \<Longrightarrow> TELEGRAM \<in> set (scheduledSends c)"
  by (auto simp: scheduledSends_def restActive_def telegramActive_def trim_Nil)

lemma forwardSMS_both_fail:
  assumes run: "isRunning s" and cfg: "config s = Some c"
    and r: "REST \<in> set (scheduledSends c)" and t: "TELEGRAM \<in> set (scheduledSends c)"
    and rf: "restSendFails e c sms" and tf: "telegramSendFails e c sms"
  shows "\<exists>err1 err2 w3. forwardSMS e sms (s, w) = (Inr (), s, incrementSMSCount e w3) \<and>
      items w3 = items w \<and>
      (delivered w3 = delivered w @ deliveries (restEvent e err1) s @ deliveries (telegramEvent e err2) s \<or>
       delivered w3 = delivered w @ deliveries (telegramEvent e err2) s @ deliveries (restEvent e err1) s)"
proof -
  obtain err2 where tg: "\<And>w. forwardToTelegram_resume e (Awaiting (telegramRequest e c sms)) s w
      = telegramError e err2 s w"
    using telegram_resume_fails [OF tf] by blast
  show ?thesis
  proof (cases "JSON_parse e (restApiHeaders c)")
    case (Inl err1)
    have "forwardSMS e sms (s, w) = (Inr (), s, incrementSMSCount e
        (telegramError e err2 s ((restError e err1 s w)
           \<lparr>requests := requests w @ [telegramRequest e c sms]\<rparr>)))"
      using run cfg r t Inl
      by (simp add: forwardSMS_def rest_call_unparsed telegram_call_eq tg
          forwardToRestAPI_resume_def restError_eq)
    then show ?thesis
      by (intro exI [of _ err1] exI [of _ err2] exI conjI, assumption)
         (simp_all add: restError_eq telegramError_eq)
  next
    case (Inr hdrs)
    obtain err1 where rs: "\<And>w. forwardToRestAPI_resume e (Awaiting (restRequest e c sms hdrs)) s w
        = restError e err1 s w"
      using rest_resume_fails [OF Inr rf] by blast
    have "forwardSMS e sms (s, w) = (Inr (), s, incrementSMSCount e
        (if telegramSettlesFirst e
         then restError e err1 s (telegramError e err2 s
                (w\<lparr>requests := requests w @ [restRequest e c sms hdrs, telegramRequest e c sms]\<rparr>))
         else telegramError e err2 s (restError e err1 s
                (w\<lparr>requests := requests w @ [restRequest e c sms hdrs, telegramRequest e c sms]\<rparr>))))"
      using run cfg r t Inr
      by (simp add: forwardSMS_def rest_call_parsed telegram_call_eq tg rs)
    then show ?thesis
      by (intro exI [of _ err1] exI [of _ err2] exI conjI, assumption)
         (simp_all add: restError_eq telegramError_eq)
  qed
qed


lemma bothConfig_active: "restActive bothConfig \<and> telegramActive bothConfig"
  by (simp add: restActive_def telegramActive_def bothConfig_def trim_def ustr_def isWhiteSpace_def)

lemma failingEnv_fails:
  "restSendFails failingEnv bothConfig sms \<and> telegramSendFails failingEnv bothConfig sms"
  by (simp add: restSendFails_def telegramSendFails_def failingEnv_def exampleEnv_def
      exampleParse_def bothConfig_def errorResponse_def)

lemma scheduledSends_mem:
  "REST \<in> set (scheduledSends c) \<longleftrightarrow> restApiEnabled c \<and> restApiUrl c \<noteq> []"
  "TELEGRAM \<in> set (scheduledSends c) \<longleftrightarrow> telegramEnabled c \<and> telegramBotToken c \<noteq> []"
  by (auto simp: scheduledSends_def)

lemma rest_call_requests:
  "requests (snd (forwardToRestAPI_call e sms s w)) = requests w \<or>
   (\<exists>r. requests (snd (forwardToRestAPI_call e sms s w)) = requests w @ [r])"
  by (auto simp: forwardToRestAPI_call_def restError_eq Let_def split: option.splits sum.splits)

lemma rest_resume_requests: "requests (forwardToRestAPI_resume e p s w) = requests w"
  by (simp add: forwardToRestAPI_resume_def restError_eq split: pending.splits sum.splits)

lemma telegram_resume_requests: "requests (forwardToTelegram_resume e p s w) = requests w"
  by (simp add: forwardToTelegram_resume_def telegramError_eq split: pending.splits sum.splits)

lemma forwardSMS_telegram_request:
  assumes "isRunning s" and "config s = Some c" and "TELEGRAM \<in> set (scheduledSends c)"
  shows "telegramRequest e c sms \<in> set (requests (snd (snd (forwardSMS e sms (s, w)))))"
proof -
  obtain p1 w1 where r: "(if REST \<in> set (scheduledSends c)
      then forwardToRestAPI_call e sms s w else (Settled, w)) = (p1, w1)"
    by (cases "if REST \<in> set (scheduledSends c)
      then forwardToRestAPI_call e sms s w else (Settled, w)") simp
  show ?thesis
    using assms r
    by (simp add: forwardSMS_def telegram_call_eq incrementSMSCount_frame
        rest_resume_requests telegram_resume_requests)
qed

lemma telegram_resume_eq:
  "forwardToTelegram_resume e (Awaiting (telegramRequest e c sms)) s w =
     (if telegramSendFails e c sms then telegramError e (telegramThrown e c sms) s w else w)"
  by (cases "fetch e (telegramRequest e c sms)")
     (auto simp: forwardToTelegram_resume_def telegramSendFails_def telegramThrown_def ok_def)

lemma resume_Settled:
  "forwardToRestAPI_resume e Settled s w = w" "forwardToTelegram_resume e Settled s w = w"
  by (simp_all add: forwardToRestAPI_resume_def forwardToTelegram_resume_def)

lemma forwardSMS_rest_unparsed:
  assumes run: "isRunning s" and cfg: "config s = Some c"
    and r: "REST \<in> set (scheduledSends c)"
    and p: "JSON_parse e (restApiHeaders c) = Inl err"
  shows "snd (snd (forwardSMS e sms (s, w))) = incrementSMSCount e
     (w\<lparr>delivered := delivered w @ deliveries (restEvent e err) s @
            (if TELEGRAM \<in> set (scheduledSends c) \<and> telegramSendFails e c sms
             then deliveries (telegramEvent e (telegramThrown e c sms)) s else []),
         requests := requests w @
            (if TELEGRAM \<in> set (scheduledSends c) then [telegramRequest e c sms] else [])\<rparr>)"
  using run cfg r p
  by (cases w)
     (simp add: forwardSMS_def rest_call_unparsed telegram_call_eq telegram_resume_eq
        resume_Settled restError_eq telegramError_eq)

subsection \<open>The Telegram send\<close>



lemma parseInt_exampleDate: "parseInt (ustr ''1700000000000'') = Num 1700000000000"
  by (simp add: parseInt_def ustr_def trimStart_def isWhiteSpace_def Let_def isDigitOf_def
      digitVal_def numeralValue_def)

lemma telegramText_laterSent:
  "telegramText exampleEnv laterSentMessage =
     [0xD83D, 0xDCF1] @ ustr '' *New SMS Received*'' @ [0xA, 0xA] @
     [0xD83D, 0xDCDE] @ ustr '' *From:* +15551234567'' @ [0xA] @
     [0xD83D, 0xDCC5] @ ustr '' *Date:* 11/14/2023, 10:13:20 PM'' @ [0xA] @
     [0xD83D, 0xDCAC] @ ustr '' *Message:*'' @ [0xA] @ ustr ''hi''"
  by (simp add: telegramText_def laterSentMessage_def exampleMessage_def parseInt_exampleDate
      exampleEnv_def exampleLocaleString_def) (simp add: ustr_def)

lemma telegramFailure_description:
  "json resp = Inr (JObject ps) \<Longrightarrow> map_of ps (ustr ''description'') = Some (JString d) \<Longrightarrow>
   d \<noteq> [] \<Longrightarrow> telegramFailure e resp = Error (ustr ''Telegram API request failed: '' @ d)"
  by (simp add: telegramFailure_def orElse_def)

lemma telegramFailure_no_description:
  assumes "json resp = Inr (JObject ps)" and "map_of ps (ustr ''description'') = None"
  shows "telegramFailure e resp =
     Error (ustr ''Telegram API request failed: '' @ numberToString e (Num (of_nat (status resp))))"
  using assms by (simp add: telegramFailure_def orElse_def)


lemma numberToString_status:
  "n < 1000 \<Longrightarrow> numberToString e (Num (of_nat n)) = intToString (int n)"
proof -
  assume "n < 1000"
  then have "(of_nat n :: rat) < of_nat 1000" by (simp only: of_nat_less_iff)
  then have "\<bar>of_nat n :: rat\<bar> < 10 ^ 21" by simp
  moreover have "(of_int \<lfloor>of_nat n :: rat\<rfloor> :: rat) = of_nat n" by simp
  moreover have "\<lfloor>of_nat n :: rat\<rfloor> = int n" by simp
  ultimately show ?thesis by (simp del: floor_of_nat)
qed

lemma telegramText_embeds:
  "\<exists>a b d. telegramText e sms =
     a @ address sms @ b @ toLocaleString e (parseInt (date sms)) @ d @ body sms"
  unfolding telegramText_def
  by (intro exI [of _ "[0xD83D, 0xDCF1] @ ustr '' *New SMS Received*'' @ [0xA, 0xA] @
        [0xD83D, 0xDCDE] @ ustr '' *From:* ''"]
      exI [of _ "[0xA] @ [0xD83D, 0xDCC5] @ ustr '' *Date:* ''"]
      exI [of _ "[0xA] @ [0xD83D, 0xDCAC] @ ustr '' *Message:*'' @ [0xA]"]) simp

lemma telegramEvent_message:
  "message (telegramEvent e err) = ustr ''Error forwarding to Telegram: '' @ errorMessage err"
  by (simp add: telegramEvent_def)

section \<open>The claims\<close>

text \<open>
  C5. If the dispatcher is not running, or no configuration is loaded, \<open>forwardSMS\<close>
  returns at once without raising an error and changes nothing: the list of network
  calls, the events delivered to listeners and the store (so the persisted counter)
  are what they were, and so is the service object.
\<close>

theorem forwardSMS_stopped_is_noop:
  "\<not> isRunning s \<or> config s = None \<Longrightarrow> forwardSMS e sms (s, w) = (Inr (), s, w)"
  by (simp add: forwardSMS_def)

theorem forwardSMS_stopped_is_noop_witness:
  "isRunning stoppedService = False \<and>
   forwardSMS exampleEnv exampleMessage (stoppedService, emptyWorld) =
     (Inr (), stoppedService, emptyWorld)"
  using forwardSMS_stopped_is_noop [of stoppedService exampleEnv exampleMessage emptyWorld]
  by (simp add: stoppedService_def)

text \<open>
  C2. \<open>isConfigurationValid\<close> returns true if and only if the configuration it reloads
  has an active destination: REST enabled and the URL non-empty after trimming, or
  Telegram enabled and both the bot token and the chat id non-empty after trimming. It
  returns false in every other case: when the service holds no configuration (the
  synchronous check), when nothing is stored (the defaults are loaded), and when
  the stored configuration cannot be read or parsed (\<open>loadConfig\<close> throws).
\<close>

theorem isConfigurationValid_iff_some_destination_active:
  "(fst (isConfigurationValid e (s, w)) \<longleftrightarrow>
      (\<exists>s1 c. loadConfig e w s = Inr s1 \<and> config s1 = Some c \<and> (restActive c \<or> telegramActive c))) \<and>
   (config s = None \<longrightarrow> \<not> isConfigurationValidSync s) \<and>
   (getItemError e smsForwarderConfig = None \<and> items w smsForwarderConfig = None \<longrightarrow>
      \<not> fst (isConfigurationValid e (s, w))) \<and>
   (loadConfig e w s = Inl err \<longrightarrow> \<not> fst (isConfigurationValid e (s, w)))"
proof -
  have a: "fst (isConfigurationValid e (s, w)) \<longleftrightarrow>
      (\<exists>s1 c. loadConfig e w s = Inr s1 \<and> config s1 = Some c \<and> (restActive c \<or> telegramActive c))"
    by (cases "loadConfig e w s") (simp_all add: isConfigurationValid_def isConfigurationValidSync_iff)
  have b: "config s = None \<longrightarrow> \<not> isConfigurationValidSync s"
    by (simp add: isConfigurationValidSync_def)
  have c: "getItemError e smsForwarderConfig = None \<and> items w smsForwarderConfig = None \<longrightarrow>
      \<not> fst (isConfigurationValid e (s, w))"
    using defaultConfig_inactive
    by (auto simp: isConfigurationValid_def loadConfig_nothing_stored isConfigurationValidSync_iff)
  have d: "loadConfig e w s = Inl err \<longrightarrow> \<not> fst (isConfigurationValid e (s, w))"
    by (simp add: isConfigurationValid_def)
  from a b c d show ?thesis by blast
qed

theorem isConfigurationValid_iff_some_destination_active_witness:
  "loadConfig exampleEnv configuredWorld stoppedService
     = Inr (stoppedService\<lparr>config := Some restOnlyConfig\<rparr>) \<and>
   restActive restOnlyConfig \<and>
   fst (isConfigurationValid exampleEnv (stoppedService, configuredWorld)) = True \<and>
   getItemError exampleEnv smsForwarderConfig = None \<and>
   items emptyWorld smsForwarderConfig = None \<and>
   fst (isConfigurationValid exampleEnv (stoppedService, emptyWorld)) = False"
proof -
  note t1 = isConfigurationValid_iff_some_destination_active
              [of exampleEnv stoppedService configuredWorld]
  note t2 = isConfigurationValid_iff_some_destination_active
              [of exampleEnv stoppedService emptyWorld]
  have g: "getItemError exampleEnv smsForwarderConfig = None"
    by (simp add: exampleEnv_def)
  have i: "items emptyWorld smsForwarderConfig = None"
    by (simp add: emptyWorld_def)
  have l: "loadConfig exampleEnv configuredWorld stoppedService
             = Inr (stoppedService\<lparr>config := Some restOnlyConfig\<rparr>)"
    by (rule loadConfig_example)
  have c: "config (stoppedService\<lparr>config := Some restOnlyConfig\<rparr>) = Some restOnlyConfig"
    by simp
  have v: "fst (isConfigurationValid exampleEnv (stoppedService, configuredWorld))"
    using t1 l c restOnlyConfig_active by blast
  have n: "\<not> fst (isConfigurationValid exampleEnv (stoppedService, emptyWorld))"
    using t2 g i by blast
  show ?thesis using g i l v n restOnlyConfig_active by simp
qed

text \<open>
  C8. From every state \<open>stop\<close> sets the running flag to false, so \<open>isServiceRunning\<close> is
  false afterwards; when the store accepts the write, \<open>stop\<close> returns normally and
  \<^verbatim>\<open>"false"\<close> is stored under \<^verbatim>\<open>smsForwarderRunning\<close>. A second \<open>stop\<close> leaves the service
  object as the first left it, and the whole outcome (result, service, world) as well
  when the store accepts both writes.
\<close>

theorem stop_stops_and_is_idempotent:
  "isServiceRunning (fst (snd (stop e sw))) = False \<and>
   (setItemError e smsForwarderRunning = None \<longrightarrow>
      fst (stop e sw) = Inr () \<and>
      items (snd (snd (stop e sw))) smsForwarderRunning = Some (ustr ''false'') \<and>
      (setItemError e' smsForwarderRunning = None \<longrightarrow> stop e' (snd (stop e sw)) = stop e sw)) \<and>
   fst (snd (stop e' (snd (stop e sw)))) = fst (snd (stop e sw))"
proof (cases sw)
  case (Pair s w)
  show ?thesis
  proof (cases "setItemError e smsForwarderRunning")
    case None
    then show ?thesis
      unfolding Pair by (simp add: stop_accepted stop_service isServiceRunning_def)
  next
    case (Some err)
    then show ?thesis
      unfolding Pair by (simp add: stop_rejected stop_service isServiceRunning_def)
  qed
qed

theorem stop_stops_and_is_idempotent_witness:
  "setItemError exampleEnv smsForwarderRunning = None \<and>
   isServiceRunning (fst (snd (stop exampleEnv (runningService, emptyWorld)))) = False \<and>
   fst (stop exampleEnv (runningService, emptyWorld)) = Inr () \<and>
   items (snd (snd (stop exampleEnv (runningService, emptyWorld)))) smsForwarderRunning
     = Some (ustr ''false'') \<and>
   stop exampleEnv (snd (stop exampleEnv (runningService, emptyWorld)))
     = stop exampleEnv (runningService, emptyWorld)"
  using stop_stops_and_is_idempotent [of exampleEnv "(runningService, emptyWorld)" exampleEnv]
  by (simp add: exampleEnv_def)

text \<open>
  C3, as stated, fails: \<open>start\<close> on a service that is already running, with no valid
  configuration in the store, returns without error and leaves the running flag true,
  although the validity predicate is false.
\<close>

theorem start_on_running_service_counterexample:
  "fst (isConfigurationValid exampleEnv (runningService, emptyWorld)) = False \<and>
   fst (start exampleEnv (runningService, emptyWorld)) = Inr () \<and>
   isServiceRunning (fst (snd (start exampleEnv (runningService, emptyWorld)))) = True"
proof -
  have l: "loadConfig exampleEnv emptyWorld runningService
             = Inr (runningService\<lparr>config := Some defaultConfig\<rparr>)"
    by (rule loadConfig_nothing_stored) (simp_all add: exampleEnv_def emptyWorld_def)
  have n: "\<not> isConfigurationValidSync (runningService\<lparr>config := Some defaultConfig\<rparr>)"
    using defaultConfig_inactive by (simp add: isConfigurationValidSync_iff)
  show ?thesis
    using l n by (simp add: isConfigurationValid_result start_invalid isServiceRunning_def runningService_def)
qed

text \<open>
  C3, amended. \<open>start\<close> first reloads the configuration, and throws what \<open>loadConfig\<close>
  throws, changing nothing. After a successful reload: if no destination is active it
  returns without error, with the running flag as it was and the world unchanged;
  otherwise it sets the running flag to true and, when the store accepts the write,
  returns normally with \<^verbatim>\<open>"true"\<close> stored under \<^verbatim>\<open>smsForwarderRunning\<close>. So for a service
  that was not running, \<open>isServiceRunning\<close> after \<open>start\<close> is true exactly when
  \<open>isConfigurationValid\<close> held at the call.
\<close>

theorem start_reloads_then_gates:
  "(loadConfig e w s = Inl err \<longrightarrow> start e (s, w) = (Inl err, s, w)) \<and>
   (loadConfig e w s = Inr s1 \<and> \<not> fst (isConfigurationValid e (s, w)) \<longrightarrow>
      start e (s, w) = (Inr (), s1, w) \<and> isRunning s1 = isRunning s) \<and>
   (loadConfig e w s = Inr s1 \<and> fst (isConfigurationValid e (s, w)) \<longrightarrow>
      fst (snd (start e (s, w))) = s1\<lparr>isRunning := True\<rparr> \<and>
      (setItemError e smsForwarderRunning = None \<longrightarrow>
         fst (start e (s, w)) = Inr () \<and>
         items (snd (snd (start e (s, w)))) smsForwarderRunning = Some (ustr ''true''))) \<and>
   (\<not> isRunning s \<longrightarrow>
      isServiceRunning (fst (snd (start e (s, w)))) = fst (isConfigurationValid e (s, w)))"
proof -
  have a: "loadConfig e w s = Inl err \<longrightarrow> start e (s, w) = (Inl err, s, w)"
    by (simp add: start_load_fails)
  have b: "loadConfig e w s = Inr s1 \<and> \<not> fst (isConfigurationValid e (s, w)) \<longrightarrow>
      start e (s, w) = (Inr (), s1, w) \<and> isRunning s1 = isRunning s"
    by (auto simp: isConfigurationValid_result start_invalid loadConfig_isRunning)
  have c: "loadConfig e w s = Inr s1 \<and> fst (isConfigurationValid e (s, w)) \<longrightarrow>
      fst (snd (start e (s, w))) = s1\<lparr>isRunning := True\<rparr> \<and>
      (setItemError e smsForwarderRunning = None \<longrightarrow>
         fst (start e (s, w)) = Inr () \<and>
         items (snd (snd (start e (s, w)))) smsForwarderRunning = Some (ustr ''true''))"
    by (auto simp: isConfigurationValid_result start_valid_service start_valid_accepted)
  have d: "\<not> isRunning s \<longrightarrow>
      isServiceRunning (fst (snd (start e (s, w)))) = fst (isConfigurationValid e (s, w))"
    by (simp add: start_running_iff)
  from a b c d show ?thesis by blast
qed

theorem start_reloads_then_gates_witness:
  "loadConfig exampleEnv configuredWorld stoppedService
     = Inr (stoppedService\<lparr>config := Some restOnlyConfig\<rparr>) \<and>
   fst (isConfigurationValid exampleEnv (stoppedService, configuredWorld)) = True \<and>
   setItemError exampleEnv smsForwarderRunning = None \<and>
   isRunning stoppedService = False \<and>
   fst (start exampleEnv (stoppedService, configuredWorld)) = Inr () \<and>
   isServiceRunning (fst (snd (start exampleEnv (stoppedService, configuredWorld)))) = True \<and>
   items (snd (snd (start exampleEnv (stoppedService, configuredWorld)))) smsForwarderRunning
     = Some (ustr ''true'')"
proof -
  note t = start_reloads_then_gates [of exampleEnv configuredWorld stoppedService _
             "stoppedService\<lparr>config := Some restOnlyConfig\<rparr>"]
  have l: "loadConfig exampleEnv configuredWorld stoppedService
             = Inr (stoppedService\<lparr>config := Some restOnlyConfig\<rparr>)"
    by (rule loadConfig_example)
  have v: "fst (isConfigurationValid exampleEnv (stoppedService, configuredWorld))"
    using l restOnlyConfig_active
    by (simp add: isConfigurationValid_result isConfigurationValidSync_iff)
  have a: "setItemError exampleEnv smsForwarderRunning = None"
    by (simp add: exampleEnv_def)
  have r: "isRunning stoppedService = False"
    by (simp add: stoppedService_def)
  from t l v a r show ?thesis by (simp add: isServiceRunning_def)
qed

text \<open>
  C9, as stated, fails: \<open>stop\<close> has no handler around the write of the running flag and
  \<open>start\<close> throws again what it catches, so with a store that rejects writes both pass
  the failure on to their caller.
\<close>

theorem store_write_failure_reaches_caller_counterexample:
  "fst (stop brokenStoreEnv (runningService, emptyWorld)) = Inl storeError \<and>
   fst (start brokenStoreEnv (stoppedService, configuredWorld)) = Inl storeError"
proof -
  have w: "setItemError brokenStoreEnv smsForwarderRunning = Some storeError"
    by (simp add: brokenStoreEnv_def)
  have l: "loadConfig brokenStoreEnv configuredWorld stoppedService
             = Inr (stoppedService\<lparr>config := Some restOnlyConfig\<rparr>)"
    by (rule loadConfig_example_brokenStore)
  have v: "isConfigurationValidSync (stoppedService\<lparr>config := Some restOnlyConfig\<rparr>)"
    using restOnlyConfig_active by (simp add: isConfigurationValidSync_iff)
  show ?thesis
    using w l v by (simp add: stop_rejected start_valid_rejected)
qed

text \<open>
  C9, amended. A store write failure never undoes the change in memory that goes with
  it: when the write of the running flag is rejected, the running flag is false after
  \<open>stop\<close> and true after a \<open>start\<close> with a valid configuration, and the world is
  unchanged; both operations throw the failure to their caller. Only the counter
  increment swallows it: \<open>incrementSMSCount\<close> then leaves the world as it was, and
  \<open>forwardSMS\<close> returns normally in every case.
\<close>

theorem store_write_failure_keeps_memory_change:
  "(setItemError e smsForwarderRunning = Some err \<longrightarrow>
      stop e (s, w) = (Inl err, s\<lparr>isRunning := False\<rparr>, w) \<and>
      (loadConfig e w s = Inr s1 \<and> isConfigurationValidSync s1 \<longrightarrow>
         start e (s, w) = (Inl err, s1\<lparr>isRunning := True\<rparr>, w))) \<and>
   (setItemError e smsForwardedCount = Some err \<longrightarrow> incrementSMSCount e w = w) \<and>
   fst (forwardSMS e sms (s, w)) = Inr ()"
  by (simp add: stop_rejected start_valid_rejected incrementSMSCount_write_fails forwardSMS_returns)

theorem store_write_failure_keeps_memory_change_witness:
  "setItemError brokenStoreEnv smsForwarderRunning = Some storeError \<and>
   setItemError brokenStoreEnv smsForwardedCount = Some storeError \<and>
   loadConfig brokenStoreEnv configuredWorld stoppedService
     = Inr (stoppedService\<lparr>config := Some restOnlyConfig\<rparr>) \<and>
   isConfigurationValidSync (stoppedService\<lparr>config := Some restOnlyConfig\<rparr>) \<and>
   stop brokenStoreEnv (runningService, configuredWorld)
     = (Inl storeError, runningService\<lparr>isRunning := False\<rparr>, configuredWorld) \<and>
   start brokenStoreEnv (stoppedService, configuredWorld)
     = (Inl storeError, stoppedService\<lparr>config := Some restOnlyConfig, isRunning := True\<rparr>,
        configuredWorld) \<and>
   incrementSMSCount brokenStoreEnv configuredWorld = configuredWorld \<and>
   fst (forwardSMS brokenStoreEnv exampleMessage (runningService, configuredWorld)) = Inr ()"
proof -
  note t1 = store_write_failure_keeps_memory_change
             [of brokenStoreEnv storeError runningService configuredWorld _ exampleMessage]
  note t2 = store_write_failure_keeps_memory_change
             [of brokenStoreEnv storeError stoppedService configuredWorld
                 "stoppedService\<lparr>config := Some restOnlyConfig\<rparr>" exampleMessage]
  have w: "setItemError brokenStoreEnv smsForwarderRunning = Some storeError"
    "setItemError brokenStoreEnv smsForwardedCount = Some storeError"
    by (simp_all add: brokenStoreEnv_def)
  have l: "loadConfig brokenStoreEnv configuredWorld stoppedService
             = Inr (stoppedService\<lparr>config := Some restOnlyConfig\<rparr>)"
    by (rule loadConfig_example_brokenStore)
  have v: "isConfigurationValidSync (stoppedService\<lparr>config := Some restOnlyConfig\<rparr>)"
    using restOnlyConfig_active by (simp add: isConfigurationValidSync_iff)
  from t1 t2 w l v show ?thesis by simp
qed

text \<open>
  C10. On a running service whose loaded configuration passes neither check of
  \<open>forwardSMS\<close> (REST disabled or URL empty, and Telegram disabled or bot token empty),
  \<open>forwardSMS\<close> schedules no send, returns normally, calls \<^verbatim>\<open>fetch\<close> not at all and
  delivers no error event, and still increments the persisted counter by exactly one:
  when the store reads and writes the counter and the count read before the call is the
  integer \<open>n\<close> (within the range in which numbers are exact), the count read after it is
  \<open>n + 1\<close>.
\<close>

theorem forwardSMS_without_destination_counts:
  assumes "isRunning s" and "config s = Some c"
    and "\<not> restApiEnabled c \<or> restApiUrl c = []"
    and "\<not> telegramEnabled c \<or> telegramBotToken c = []"
  shows "scheduledSends c = [] \<and>
     fst (forwardSMS e sms (s, w)) = Inr () \<and>
     requests (snd (snd (forwardSMS e sms (s, w)))) = requests w \<and>
     delivered (snd (snd (forwardSMS e sms (s, w)))) = delivered w \<and>
     (getItemError e smsForwardedCount = None \<and> setItemError e smsForwardedCount = None \<and>
      getSMSCount e w = Num (of_int n) \<and> - (2 ^ 53) \<le> n \<and> n < 2 ^ 53 \<longrightarrow>
        getSMSCount e (snd (snd (forwardSMS e sms (s, w)))) = Num (of_int (n + 1)))"
proof -
  have n: "scheduledSends c = []"
    using assms(3,4) by (auto simp: scheduledSends_def)
  have f: "forwardSMS e sms (s, w) = (Inr (), s, incrementSMSCount e w)"
    using assms(1,2) n by (rule forwardSMS_nothing_scheduled)
  show ?thesis
    using n f by (simp add: incrementSMSCount_frame incrementSMSCount_counts)
qed

theorem forwardSMS_without_destination_counts_witness:
  "isRunning disabledService \<and> config disabledService = Some disabledConfig \<and>
   restApiEnabled disabledConfig = False \<and> telegramEnabled disabledConfig = False \<and>
   getItemError exampleEnv smsForwardedCount = None \<and>
   setItemError exampleEnv smsForwardedCount = None \<and>
   getSMSCount exampleEnv countedWorld = Num (of_int 41) \<and>
   scheduledSends disabledConfig = [] \<and>
   fst (forwardSMS exampleEnv exampleMessage (disabledService, countedWorld)) = Inr () \<and>
   requests (snd (snd (forwardSMS exampleEnv exampleMessage (disabledService, countedWorld)))) = [] \<and>
   delivered (snd (snd (forwardSMS exampleEnv exampleMessage (disabledService, countedWorld)))) = [] \<and>
   getSMSCount exampleEnv (snd (snd (forwardSMS exampleEnv exampleMessage (disabledService, countedWorld))))
     = Num (of_int 42)"
proof -
  have h: "isRunning disabledService" "config disabledService = Some disabledConfig"
    "restApiEnabled disabledConfig = False" "telegramEnabled disabledConfig = False"
    by (simp_all add: disabledService_def disabledConfig_def restOnlyConfig_def)
  have g: "getItemError exampleEnv smsForwardedCount = None"
    "setItemError exampleEnv smsForwardedCount = None"
    by (simp_all add: exampleEnv_def)
  have w: "requests countedWorld = []" "delivered countedWorld = []"
    by (simp_all add: countedWorld_def)
  note t = forwardSMS_without_destination_counts
             [of disabledService disabledConfig exampleEnv exampleMessage countedWorld 41]
  from t h g w getSMSCount_countedWorld show ?thesis by simp
qed

text \<open>
  C1, as stated, fails on the category of the REST event: with both destinations active
  and both sends failing, every listener receives an event of type \<^verbatim>\<open>restapi\<close> and one of
  type \<^verbatim>\<open>telegram\<close>; no event has the type \<^verbatim>\<open>rest-api\<close>.
\<close>

theorem forwardSMS_both_fail_event_types_counterexample:
  "restActive bothConfig \<and> telegramActive bothConfig \<and>
   restSendFails failingEnv bothConfig exampleMessage \<and>
   telegramSendFails failingEnv bothConfig exampleMessage \<and>
   map (\<lambda>(l, ev). (l, type ev))
     (delivered (snd (snd (forwardSMS failingEnv exampleMessage (bothService, emptyWorld)))))
     = [(1, ustr ''restapi''), (2, ustr ''restapi''), (1, ustr ''telegram''), (2, ustr ''telegram'')] \<and>
   ustr ''restapi'' \<noteq> ustr ''rest-api''"
proof -
  have c: "config bothService = Some bothConfig" "isRunning bothService"
    "errorListeners bothService = [1, 2]"
    by (simp_all add: bothService_def)
  have p: "JSON_parse failingEnv (restApiHeaders bothConfig) = Inr exampleHeaders"
    by (simp add: failingEnv_def exampleEnv_def exampleParse_def bothConfig_def)
  have f: "fetch failingEnv = (\<lambda>r. Inr errorResponse)" "telegramSettlesFirst failingEnv = False"
    by (simp_all add: failingEnv_def exampleEnv_def)
  have n: "\<not> ok errorResponse"
    by (simp add: ok_def errorResponse_def)
  have s: "REST \<in> set (scheduledSends bothConfig)" "TELEGRAM \<in> set (scheduledSends bothConfig)"
    using bothConfig_active by (simp_all add: active_scheduled)
  have d: "delivered (snd (snd (forwardSMS failingEnv exampleMessage (bothService, emptyWorld))))
      = deliveries (restEvent failingEnv
          (Error (ustr ''REST API request failed: '' @ intToString (int (status errorResponse)))))
          bothService @
        deliveries (telegramEvent failingEnv (telegramFailure failingEnv errorResponse)) bothService"
    using c(1,2) p f n s
    by (simp add: forwardSMS_def rest_call_parsed telegram_call_eq forwardToRestAPI_resume_def
        forwardToTelegram_resume_def restError_eq telegramError_eq incrementSMSCount_frame
        emptyWorld_def)
  have t: "ustr ''restapi'' \<noteq> ustr ''rest-api''"
    by (simp add: ustr_def)
  show ?thesis
    using bothConfig_active failingEnv_fails [of exampleMessage] t
    by (simp add: d deliveries_def c(3) restEvent_def telegramEvent_def)
qed

text \<open>
  C1, amended. On a running service whose loaded configuration has both destinations
  active, when both sends fail, \<open>forwardSMS\<close> returns normally and delivers exactly two
  error events to every registered listener, one of type \<^verbatim>\<open>restapi\<close> and one of type
  \<^verbatim>\<open>telegram\<close>, in the order in which the sends settle; and it increments the persisted
  counter by exactly one: when the store reads and writes the counter and the count read
  before the call is the integer \<open>n\<close> (within the range in which numbers are exact), the
  count read after it is \<open>n + 1\<close>.
\<close>

theorem forwardSMS_both_sends_fail:
  assumes "isRunning s" and "config s = Some c"
    and "restActive c" and "telegramActive c"
    and "restSendFails e c sms" and "telegramSendFails e c sms"
  shows "fst (forwardSMS e sms (s, w)) = Inr () \<and>
     (\<exists>ev1 ev2. type ev1 = ustr ''restapi'' \<and> type ev2 = ustr ''telegram'' \<and>
        (delivered (snd (snd (forwardSMS e sms (s, w))))
           = delivered w @ deliveries ev1 s @ deliveries ev2 s \<or>
         delivered (snd (snd (forwardSMS e sms (s, w))))
           = delivered w @ deliveries ev2 s @ deliveries ev1 s)) \<and>
     (getItemError e smsForwardedCount = None \<and> setItemError e smsForwardedCount = None \<and>
      getSMSCount e w = Num (of_int n) \<and> - (2 ^ 53) \<le> n \<and> n < 2 ^ 53 \<longrightarrow>
        getSMSCount e (snd (snd (forwardSMS e sms (s, w)))) = Num (of_int (n + 1)))"
proof -
  obtain err1 err2 w3 where
    f: "forwardSMS e sms (s, w) = (Inr (), s, incrementSMSCount e w3)" and
    i: "items w3 = items w" and
    d: "delivered w3 = delivered w @ deliveries (restEvent e err1) s @ deliveries (telegramEvent e err2) s \<or>
        delivered w3 = delivered w @ deliveries (telegramEvent e err2) s @ deliveries (restEvent e err1) s"
    using forwardSMS_both_fail [OF assms(1,2) active_scheduled(1) [OF assms(3)]
        active_scheduled(2) [OF assms(4)] assms(5,6)]
    by blast
  have t: "type (restEvent e err1) = ustr ''restapi''" "type (telegramEvent e err2) = ustr ''telegram''"
    by (simp_all add: restEvent_def telegramEvent_def)
  have ev: "\<exists>ev1 ev2. type ev1 = ustr ''restapi'' \<and> type ev2 = ustr ''telegram'' \<and>
        (delivered (snd (snd (forwardSMS e sms (s, w))))
           = delivered w @ deliveries ev1 s @ deliveries ev2 s \<or>
         delivered (snd (snd (forwardSMS e sms (s, w))))
           = delivered w @ deliveries ev2 s @ deliveries ev1 s)"
    using d t unfolding f by (intro exI [of _ "restEvent e err1"] exI [of _ "telegramEvent e err2"])
      (simp add: incrementSMSCount_frame)
  have cnt: "getItemError e smsForwardedCount = None \<and> setItemError e smsForwardedCount = None \<and>
      getSMSCount e w = Num (of_int n) \<and> - (2 ^ 53) \<le> n \<and> n < 2 ^ 53 \<longrightarrow>
        getSMSCount e (snd (snd (forwardSMS e sms (s, w)))) = Num (of_int (n + 1))"
  proof (intro impI, elim conjE)
    assume g: "getItemError e smsForwardedCount = None"
      and p: "setItemError e smsForwardedCount = None"
      and k: "getSMSCount e w = Num (of_int n)"
      and r: "- (2 ^ 53) \<le> n" "n < 2 ^ 53"
    have "getSMSCount e w3 = Num (of_int n)"
      using k getSMSCount_items [OF i, of e] by simp
    from incrementSMSCount_counts [OF g p g this r]
    show "getSMSCount e (snd (snd (forwardSMS e sms (s, w)))) = Num (of_int (n + 1))"
      by (simp add: f)
  qed
  show ?thesis using f ev cnt by simp
qed

theorem forwardSMS_both_sends_fail_witness:
  "isRunning bothService \<and> config bothService = Some bothConfig \<and>
   restActive bothConfig \<and> telegramActive bothConfig \<and>
   restSendFails failingEnv bothConfig exampleMessage \<and>
   telegramSendFails failingEnv bothConfig exampleMessage \<and>
   getItemError failingEnv smsForwardedCount = None \<and>
   setItemError failingEnv smsForwardedCount = None \<and>
   getSMSCount failingEnv countedWorld = Num (of_int 41) \<and>
   fst (forwardSMS failingEnv exampleMessage (bothService, countedWorld)) = Inr () \<and>
   getSMSCount failingEnv (snd (snd (forwardSMS failingEnv exampleMessage (bothService, countedWorld))))
     = Num (of_int 42)"
proof -
  have h: "isRunning bothService" "config bothService = Some bothConfig"
    by (simp_all add: bothService_def)
  have g: "getItemError failingEnv smsForwardedCount = None"
    "setItemError failingEnv smsForwardedCount = None"
    by (simp_all add: failingEnv_def exampleEnv_def)
  have k: "getSMSCount failingEnv countedWorld = Num (of_int 41)"
    using getSMSCount_countedWorld by (simp add: getSMSCount_def getItem_def failingEnv_def exampleEnv_def)
  note a = bothConfig_active failingEnv_fails [of exampleMessage]
  note t = forwardSMS_both_sends_fail
             [of bothService bothConfig failingEnv exampleMessage countedWorld 41]
  from t h g k a show ?thesis by simp
qed

text \<open>
  C4 says that a send is scheduled exactly for the active destinations. The code does
  not do that: \<open>forwardSMS\<close> schedules the REST send when REST is enabled and the URL is
  not the empty string, and the Telegram send when Telegram is enabled and the bot token
  is not the empty string. It neither trims nor looks at the chat id, unlike
  \<open>isConfigurationValidSync\<close> of the same class. On a running service a Telegram
  destination that is enabled with a bot token therefore gets its request, whatever the
  chat id. The example is a configuration with an empty chat id, which is not active and
  to which the request is made; a URL of three spaces is scheduled as well.
\<close>

theorem forwardSMS_schedules_by_flag_and_first_field:
  assumes "isRunning s" and "config s = Some c"
  shows "(REST \<in> set (scheduledSends c) \<longleftrightarrow> restApiEnabled c \<and> restApiUrl c \<noteq> []) \<and>
     (TELEGRAM \<in> set (scheduledSends c) \<longleftrightarrow> telegramEnabled c \<and> telegramBotToken c \<noteq> []) \<and>
     (telegramEnabled c \<and> telegramBotToken c \<noteq> [] \<longrightarrow>
        telegramRequest e c sms \<in> set (requests (snd (snd (forwardSMS e sms (s, w))))))"
  using assms by (simp add: scheduledSends_mem forwardSMS_telegram_request)

theorem forwardSMS_schedules_by_flag_and_first_field_witness:
  "isRunning noChatIdService \<and> config noChatIdService = Some noChatIdConfig \<and>
   telegramEnabled noChatIdConfig \<and> telegramBotToken noChatIdConfig \<noteq> [] \<and>
   telegramChatId noChatIdConfig = [] \<and> telegramActive noChatIdConfig = False \<and>
   scheduledSends noChatIdConfig = [REST, TELEGRAM] \<and>
   telegramRequest exampleEnv noChatIdConfig exampleMessage
     \<in> set (requests (snd (snd (forwardSMS exampleEnv exampleMessage (noChatIdService, emptyWorld))))) \<and>
   restActive blankUrlConfig = False \<and> scheduledSends blankUrlConfig = [REST]"
proof -
  have h: "isRunning noChatIdService" "config noChatIdService = Some noChatIdConfig"
    by (simp_all add: noChatIdService_def)
  have c: "telegramEnabled noChatIdConfig" "telegramBotToken noChatIdConfig \<noteq> []"
    "telegramChatId noChatIdConfig = []" "restApiEnabled noChatIdConfig"
    "restApiUrl noChatIdConfig \<noteq> []"
    by (simp_all add: noChatIdConfig_def bothConfig_def ustr_def)
  have a: "telegramActive noChatIdConfig = False"
    using c(3) by (simp add: telegramActive_def trim_Nil)
  have b: "restActive blankUrlConfig = False" "scheduledSends blankUrlConfig = [REST]"
    by (simp_all add: restActive_def scheduledSends_def blankUrlConfig_def restOnlyConfig_def
        trim_def ustr_def isWhiteSpace_def)
  note t = forwardSMS_schedules_by_flag_and_first_field
             [OF h, of exampleEnv exampleMessage emptyWorld]
  from t h c a b show ?thesis by (simp add: scheduledSends_def)
qed

text \<open>
  C6, as stated, fails twice. With the headers text \<^verbatim>\<open>{invalid json\<close> the event of the REST
  send has the type \<^verbatim>\<open>restapi\<close>, not \<^verbatim>\<open>rest-api\<close>. And a headers text that is JSON and not
  a key/value mapping, such as \<^verbatim>\<open>null\<close>, is parsed without complaint: the send calls
  \<^verbatim>\<open>fetch\<close> with it and, when the request is answered with status 200, emits no event.
\<close>

theorem unparsable_headers_counterexample:
  "JSON_parse exampleEnv (restApiHeaders invalidHeadersConfig)
     = Inl (Error (ustr ''JSON Parse error: Unexpected token'')) \<and>
   map (\<lambda>(l, ev). (l, type ev))
     (delivered (snd (forwardToRestAPI_call exampleEnv exampleMessage invalidHeadersService emptyWorld)))
     = [(1, ustr ''restapi''), (2, ustr ''restapi'')] \<and>
   ustr ''restapi'' \<noteq> ustr ''rest-api'' \<and>
   JSON_parse exampleEnv (restApiHeaders nullHeadersConfig) = Inr JNull \<and>
   requests (snd (snd (forwardSMS exampleEnv exampleMessage (nullHeadersService, emptyWorld))))
     = [restRequest exampleEnv nullHeadersConfig exampleMessage JNull] \<and>
   delivered (snd (snd (forwardSMS exampleEnv exampleMessage (nullHeadersService, emptyWorld)))) = []"
proof -
  have p1: "JSON_parse exampleEnv (restApiHeaders invalidHeadersConfig)
     = Inl (Error (ustr ''JSON Parse error: Unexpected token''))"
    by (simp add: exampleEnv_def exampleParse_def invalidHeadersConfig_def bothConfig_def
        defaultHeaders_def exampleConfigText_def ustr_def)
  have c1: "config invalidHeadersService = Some invalidHeadersConfig"
    "errorListeners invalidHeadersService = [1, 2]"
    by (simp_all add: invalidHeadersService_def)
  have d1: "map (\<lambda>(l, ev). (l, type ev))
     (delivered (snd (forwardToRestAPI_call exampleEnv exampleMessage invalidHeadersService emptyWorld)))
     = [(1, ustr ''restapi''), (2, ustr ''restapi'')]"
    by (simp add: rest_call_unparsed [OF c1(1) p1] restError_eq deliveries_def c1(2)
        restEvent_def emptyWorld_def)
  have t: "ustr ''restapi'' \<noteq> ustr ''rest-api''"
    by (simp add: ustr_def)
  have p2: "JSON_parse exampleEnv (restApiHeaders nullHeadersConfig) = Inr JNull"
    by (simp add: exampleEnv_def exampleParse_def nullHeadersConfig_def restOnlyConfig_def
        defaultHeaders_def exampleConfigText_def ustr_def)
  have c2: "config nullHeadersService = Some nullHeadersConfig" "isRunning nullHeadersService"
    by (simp_all add: nullHeadersService_def)
  have s2: "REST \<in> set (scheduledSends nullHeadersConfig)"
    "TELEGRAM \<notin> set (scheduledSends nullHeadersConfig)"
    by (simp_all add: scheduledSends_mem nullHeadersConfig_def restOnlyConfig_def ustr_def)
  have f: "fetch exampleEnv = (\<lambda>r. Inr okResponse)" "ok okResponse"
    by (simp_all add: exampleEnv_def ok_def okResponse_def)
  have w2: "snd (snd (forwardSMS exampleEnv exampleMessage (nullHeadersService, emptyWorld)))
      = incrementSMSCount exampleEnv
          (emptyWorld\<lparr>requests := [restRequest exampleEnv nullHeadersConfig exampleMessage JNull]\<rparr>)"
    using c2 s2 f
    by (simp add: forwardSMS_def rest_call_parsed [OF c2(1) p2] forwardToRestAPI_resume_def
        forwardToTelegram_resume_def emptyWorld_def)
  have e: "delivered emptyWorld = []"
    by (simp add: emptyWorld_def)
  show ?thesis
    using p1 d1 t p2 e by (simp add: w2 incrementSMSCount_frame)
qed

text \<open>
  C6, amended. When \<^verbatim>\<open>JSON.parse\<close> rejects the configured headers text, the REST send
  settles at once, having delivered exactly one event, of type \<^verbatim>\<open>restapi\<close>, to every
  registered listener and without a call of \<^verbatim>\<open>fetch\<close>. The Telegram send is not
  affected: in \<open>forwardSMS\<close> the only request made is the Telegram one, if that send is
  scheduled, and after the REST event the listeners receive the Telegram event exactly
  when that send is scheduled and fails.
\<close>

theorem unparsable_headers_abort_rest_send_only:
  assumes "config s = Some c" and "JSON_parse e (restApiHeaders c) = Inl err"
  shows "forwardToRestAPI_call e sms s w
       = (Settled, w\<lparr>delivered := delivered w @ deliveries (restEvent e err) s\<rparr>) \<and>
     type (restEvent e err) = ustr ''restapi'' \<and>
     (isRunning s \<and> REST \<in> set (scheduledSends c) \<longrightarrow>
        requests (snd (snd (forwardSMS e sms (s, w)))) = requests w @
          (if TELEGRAM \<in> set (scheduledSends c) then [telegramRequest e c sms] else []) \<and>
        delivered (snd (snd (forwardSMS e sms (s, w)))) =
          delivered w @ deliveries (restEvent e err) s @
          (if TELEGRAM \<in> set (scheduledSends c) \<and> telegramSendFails e c sms
           then deliveries (telegramEvent e (telegramThrown e c sms)) s else []))"
  using assms
  by (simp add: rest_call_unparsed restError_eq restEvent_def forwardSMS_rest_unparsed
      incrementSMSCount_frame)

theorem unparsable_headers_abort_rest_send_only_witness:
  "config invalidHeadersService = Some invalidHeadersConfig \<and>
   JSON_parse exampleEnv (restApiHeaders invalidHeadersConfig)
     = Inl (Error (ustr ''JSON Parse error: Unexpected token'')) \<and>
   isRunning invalidHeadersService \<and> REST \<in> set (scheduledSends invalidHeadersConfig) \<and>
   TELEGRAM \<in> set (scheduledSends invalidHeadersConfig) \<and>
   telegramSendFails exampleEnv invalidHeadersConfig exampleMessage = False \<and>
   requests (snd (snd (forwardSMS exampleEnv exampleMessage (invalidHeadersService, emptyWorld))))
     = [telegramRequest exampleEnv invalidHeadersConfig exampleMessage] \<and>
   delivered (snd (snd (forwardSMS exampleEnv exampleMessage (invalidHeadersService, emptyWorld))))
     = deliveries (restEvent exampleEnv (Error (ustr ''JSON Parse error: Unexpected token'')))
         invalidHeadersService"
proof -
  have p: "JSON_parse exampleEnv (restApiHeaders invalidHeadersConfig)
     = Inl (Error (ustr ''JSON Parse error: Unexpected token''))"
    by (simp add: exampleEnv_def exampleParse_def invalidHeadersConfig_def bothConfig_def
        defaultHeaders_def exampleConfigText_def ustr_def)
  have c: "config invalidHeadersService = Some invalidHeadersConfig"
    "isRunning invalidHeadersService"
    by (simp_all add: invalidHeadersService_def)
  have s: "REST \<in> set (scheduledSends invalidHeadersConfig)"
    "TELEGRAM \<in> set (scheduledSends invalidHeadersConfig)"
    by (simp_all add: scheduledSends_mem invalidHeadersConfig_def bothConfig_def ustr_def)
  have f: "telegramSendFails exampleEnv invalidHeadersConfig exampleMessage = False"
    by (simp add: telegramSendFails_def exampleEnv_def okResponse_def)
  have w: "requests emptyWorld = []" "delivered emptyWorld = []"
    by (simp_all add: emptyWorld_def)
  note t = unparsable_headers_abort_rest_send_only
             [OF c(1) p, of exampleMessage emptyWorld]
  from t p c s f w show ?thesis by simp
qed

text \<open>
  C7, as stated, fails twice. A response with status 200 whose body has the success flag
  false is not classified as a failure: the send looks at the status only and emits
  nothing. And the date in the text is derived from the field \<^verbatim>\<open>date\<close> of the message (the
  time of receipt), not from \<^verbatim>\<open>dateSent\<close>: for a message received at 1700000000000 and
  sent at 1600000000000 the text shows the former.
\<close>

theorem telegram_send_counterexample:
  "status okFalseResponse = 200 \<and>
   json okFalseResponse = Inr (JObject
     [(ustr ''ok'', JBool False), (ustr ''description'', JString (ustr ''Bad Request''))]) \<and>
   fetch okFalseEnv (telegramRequest okFalseEnv bothConfig exampleMessage) = Inr okFalseResponse \<and>
   forwardToTelegram_resume okFalseEnv (Awaiting (telegramRequest okFalseEnv bothConfig exampleMessage))
     bothService emptyWorld = emptyWorld \<and>
   date laterSentMessage = ustr ''1700000000000'' \<and>
   dateSent laterSentMessage = ustr ''1600000000000'' \<and>
   telegramText exampleEnv laterSentMessage =
     [0xD83D, 0xDCF1] @ ustr '' *New SMS Received*'' @ [0xA, 0xA] @
     [0xD83D, 0xDCDE] @ ustr '' *From:* +15551234567'' @ [0xA] @
     [0xD83D, 0xDCC5] @ ustr '' *Date:* 11/14/2023, 10:13:20 PM'' @ [0xA] @
     [0xD83D, 0xDCAC] @ ustr '' *Message:*'' @ [0xA] @ ustr ''hi''"
proof -
  have f: "fetch okFalseEnv (telegramRequest okFalseEnv bothConfig exampleMessage) = Inr okFalseResponse"
    by (simp add: okFalseEnv_def)
  have n: "\<not> telegramSendFails okFalseEnv bothConfig exampleMessage"
    by (simp add: telegramSendFails_def f) (simp add: okFalseResponse_def)
  show ?thesis
    using f telegramText_laterSent
    by (simp add: telegram_resume_eq n)
       (simp add: okFalseResponse_def laterSentMessage_def exampleMessage_def)
qed

text \<open>
  C7, amended. The Telegram send builds a text that embeds the sender, the date that
  \<^verbatim>\<open>toLocaleString\<close> gives for the field \<^verbatim>\<open>date\<close> of the message, and the body; it POSTs
  to \<^verbatim>\<open>https://api.telegram.org/bot<token>/sendMessage\<close> a JSON body with the configured
  chat id, that text and the parse mode \<^verbatim>\<open>Markdown\<close>. It classifies the attempt as a
  failure, delivering one event of type \<^verbatim>\<open>telegram\<close> to every listener, exactly when
  \<^verbatim>\<open>fetch\<close> rejects or the status is not 2xx; the body is read only then. When the body
  is an object with a non-empty string \<^verbatim>\<open>description\<close>, the message of the event ends
  with it; when it has no \<^verbatim>\<open>description\<close>, with the status.
\<close>

theorem telegram_send_posts_and_classifies:
  assumes "config s = Some c"
  shows "forwardToTelegram_call e sms s w
       = (Awaiting (telegramRequest e c sms), w\<lparr>requests := requests w @ [telegramRequest e c sms]\<rparr>) \<and>
     url (telegramRequest e c sms)
       = ustr ''https://api.telegram.org/bot'' @ telegramBotToken c @ ustr ''/sendMessage'' \<and>
     httpMethod (telegramRequest e c sms) = ustr ''POST'' \<and>
     requestBody (telegramRequest e c sms) = JSON_stringify e (JObject
        [(ustr ''chat_id'', JString (telegramChatId c)),
         (ustr ''text'', JString (telegramText e sms)),
         (ustr ''parse_mode'', JString (ustr ''Markdown''))]) \<and>
     (\<exists>a b d. telegramText e sms =
        a @ address sms @ b @ toLocaleString e (parseInt (date sms)) @ d @ body sms) \<and>
     forwardToTelegram_resume e (Awaiting (telegramRequest e c sms)) s w
       = (case fetch e (telegramRequest e c sms) of
            Inl err \<Rightarrow> w\<lparr>delivered := delivered w @ deliveries (telegramEvent e err) s\<rparr>
          | Inr resp \<Rightarrow>
              if status resp < 200 \<or> 299 < status resp
              then w\<lparr>delivered := delivered w @ deliveries (telegramEvent e (telegramFailure e resp)) s\<rparr>
              else w) \<and>
     (\<forall>resp ps. json resp = Inr (JObject ps) \<longrightarrow>
        (\<forall>d. map_of ps (ustr ''description'') = Some (JString d) \<and> d \<noteq> [] \<longrightarrow>
           message (telegramEvent e (telegramFailure e resp))
             = ustr ''Error forwarding to Telegram: Telegram API request failed: '' @ d) \<and>
        (map_of ps (ustr ''description'') = None \<and> status resp < 1000 \<longrightarrow>
           message (telegramEvent e (telegramFailure e resp))
             = ustr ''Error forwarding to Telegram: Telegram API request failed: '' @
               intToString (int (status resp))))"
proof -
  have r: "forwardToTelegram_resume e (Awaiting (telegramRequest e c sms)) s w
       = (case fetch e (telegramRequest e c sms) of
            Inl err \<Rightarrow> w\<lparr>delivered := delivered w @ deliveries (telegramEvent e err) s\<rparr>
          | Inr resp \<Rightarrow>
              if status resp < 200 \<or> 299 < status resp
              then w\<lparr>delivered := delivered w @ deliveries (telegramEvent e (telegramFailure e resp)) s\<rparr>
              else w)"
    by (auto simp: forwardToTelegram_resume_def telegramError_eq ok_def split: sum.splits)
  have m: "\<forall>resp ps. json resp = Inr (JObject ps) \<longrightarrow>
        (\<forall>d. map_of ps (ustr ''description'') = Some (JString d) \<and> d \<noteq> [] \<longrightarrow>
           message (telegramEvent e (telegramFailure e resp))
             = ustr ''Error forwarding to Telegram: Telegram API request failed: '' @ d) \<and>
        (map_of ps (ustr ''description'') = None \<and> status resp < 1000 \<longrightarrow>
           message (telegramEvent e (telegramFailure e resp))
             = ustr ''Error forwarding to Telegram: Telegram API request failed: '' @
               intToString (int (status resp)))"
    by (auto simp: telegramEvent_message telegramFailure_description telegramFailure_no_description
        numberToString_status ustr_def)
  show ?thesis
    using assms telegramText_embeds [of e sms] r m
    by (simp add: telegram_call_eq) (simp add: telegramRequest_def)
qed


theorem telegram_send_posts_and_classifies_witness:
  "config bothService = Some bothConfig \<and>
   fetch failingEnv (telegramRequest failingEnv bothConfig exampleMessage) = Inr errorResponse \<and>
   status errorResponse = 400 \<and>
   json errorResponse = Inr (JObject
     [(ustr ''ok'', JBool False), (ustr ''error_code'', JNumber (Num 400)),
      (ustr ''description'', JString (ustr ''Bad Request: chat not found''))]) \<and>
   map_of [(ustr ''ok'', JBool False), (ustr ''error_code'', JNumber (Num 400)),
      (ustr ''description'', JString (ustr ''Bad Request: chat not found''))] (ustr ''description'')
     = Some (JString (ustr ''Bad Request: chat not found'')) \<and>
   forwardToTelegram_call failingEnv exampleMessage bothService emptyWorld
     = (Awaiting (telegramRequest failingEnv bothConfig exampleMessage),
        emptyWorld\<lparr>requests := [telegramRequest failingEnv bothConfig exampleMessage]\<rparr>) \<and>
   url (telegramRequest failingEnv bothConfig exampleMessage)
     = ustr ''https://api.telegram.org/bot123456:ABC/sendMessage'' \<and>
   forwardToTelegram_resume failingEnv (Awaiting (telegramRequest failingEnv bothConfig exampleMessage))
       bothService emptyWorld
     = emptyWorld\<lparr>delivered := deliveries
         (telegramEvent failingEnv (telegramFailure failingEnv errorResponse)) bothService\<rparr> \<and>
   message (telegramEvent failingEnv (telegramFailure failingEnv errorResponse))
     = ustr ''Error forwarding to Telegram: Telegram API request failed: Bad Request: chat not found''"
proof -
  have c: "config bothService = Some bothConfig"
    by (simp add: bothService_def)
  have f: "fetch failingEnv (telegramRequest failingEnv bothConfig exampleMessage) = Inr errorResponse"
    by (simp add: failingEnv_def)
  have st: "status errorResponse = 400"
    by (simp add: errorResponse_def)
  have j: "json errorResponse = Inr (JObject
     [(ustr ''ok'', JBool False), (ustr ''error_code'', JNumber (Num 400)),
      (ustr ''description'', JString (ustr ''Bad Request: chat not found''))])"
    by (simp add: errorResponse_def)
  have m: "map_of [(ustr ''ok'', JBool False), (ustr ''error_code'', JNumber (Num 400)),
      (ustr ''description'', JString (ustr ''Bad Request: chat not found''))] (ustr ''description'')
     = Some (JString (ustr ''Bad Request: chat not found''))"
    by (simp add: ustr_def)
  have d: "ustr ''Bad Request: chat not found'' \<noteq> []"
    by (simp add: ustr_def)
  have u: "ustr ''https://api.telegram.org/bot'' @ telegramBotToken bothConfig @ ustr ''/sendMessage''
     = ustr ''https://api.telegram.org/bot123456:ABC/sendMessage''"
    by (simp add: bothConfig_def ustr_def)
  have w: "requests emptyWorld = []" "delivered emptyWorld = []"
    by (simp_all add: emptyWorld_def)
  have x: "ustr ''Error forwarding to Telegram: Telegram API request failed: '' @
       ustr ''Bad Request: chat not found''
     = ustr ''Error forwarding to Telegram: Telegram API request failed: Bad Request: chat not found''"
    by (simp add: ustr_def)
  note t = telegram_send_posts_and_classifies [OF c, of failingEnv exampleMessage emptyWorld]
  have t1: "forwardToTelegram_call failingEnv exampleMessage bothService emptyWorld
     = (Awaiting (telegramRequest failingEnv bothConfig exampleMessage),
        emptyWorld\<lparr>requests := [telegramRequest failingEnv bothConfig exampleMessage]\<rparr>)"
    using t w by simp
  have t2: "url (telegramRequest failingEnv bothConfig exampleMessage)
     = ustr ''https://api.telegram.org/bot123456:ABC/sendMessage''"
    using t u by simp
  have t3: "forwardToTelegram_resume failingEnv
       (Awaiting (telegramRequest failingEnv bothConfig exampleMessage)) bothService emptyWorld
     = emptyWorld\<lparr>delivered := deliveries
         (telegramEvent failingEnv (telegramFailure failingEnv errorResponse)) bothService\<rparr>"
    using t f st w by simp
  have t4: "message (telegramEvent failingEnv (telegramFailure failingEnv errorResponse))
     = ustr ''Error forwarding to Telegram: Telegram API request failed: Bad Request: chat not found''"
  proof -
    from t have "\<forall>resp ps. json resp = Inr (JObject ps) \<longrightarrow>
        (\<forall>d. map_of ps (ustr ''description'') = Some (JString d) \<and> d \<noteq> [] \<longrightarrow>
           message (telegramEvent failingEnv (telegramFailure failingEnv resp))
             = ustr ''Error forwarding to Telegram: Telegram API request failed: '' @ d) \<and>
        (map_of ps (ustr ''description'') = None \<and> status resp < 1000 \<longrightarrow>
           message (telegramEvent failingEnv (telegramFailure failingEnv resp))
             = ustr ''Error forwarding to Telegram: Telegram API request failed: '' @
               intToString (int (status resp)))"
      by (elim conjE) assumption
    from this [rule_format, OF j, THEN conjunct1, rule_format, OF conjI [OF m d]]
    show ?thesis by (simp only: x)
  qed
  from c f st j m t1 t2 t3 t4 show ?thesis by (intro conjI)
qed

end
